theory Spec2Isabelle
  imports Main "HOL-Library.AList"
begin


section \<open>The new-rule wizard: data model\<close>

text \<open>
  The model follows \<^verbatim>\<open>init.ts\<close> (which holds the init wizard, the new-rule wizard and a
  test file) and \<^verbatim>\<open>utils/handlebars\<close> (\<^verbatim>\<open>escapeSafeString\<close>, \<^verbatim>\<open>compileTemplate\<close>).
  JavaScript strings are modelled as \<^typ>\<open>string\<close>; \<^verbatim>\<open>undefined\<close> is \<^const>\<open>None\<close>.
\<close>

datatype error = TypeError | IOError string | RenderError string

text \<open>One answer map of \<^verbatim>\<open>inquirer.prompt(questions(type))\<close>. Questions guarded by a
  \<^verbatim>\<open>when\<close> may be skipped, which leaves the key undefined.\<close>

record answers =
  ans_multi :: "bool option"
  ans_name :: string
  ans_description :: string
  ans_category :: "string option"
  ans_useCase :: "string option"
  ans_elementType :: "string option"
  ans_scope :: "string option"
  ans_again :: "bool option"

text \<open>The main answers after \<^verbatim>\<open>results.official = ...\<close> and \<^verbatim>\<open>results.rules = rules\<close>.\<close>

record package_data = answers +
  ans_official :: bool
  ans_rules :: "answers list"

record NewRule =
  rule_name :: string
  rule_normalizedName :: string
  className :: string
  category :: string
  rule_description :: string
  elementType :: "string option"
  rule_events :: string
  useCase :: "(string \<times> bool) list"
  scope :: "string option"
  rule_isRule :: bool
  parentName :: "string option"

record RulePackage =
  pkg_name :: string
  pkg_description :: string
  isMulti :: "bool option"
  normalizedName :: string
  official :: bool
  packageMain :: string
  packageName :: string
  rules :: "NewRule list"
  version :: string
  destination :: string
  pkg_isRule :: bool

text \<open>What the wizard takes from \<^verbatim>\<open>process\<close>, \<^verbatim>\<open>path\<close>, \<^verbatim>\<open>utils/misc\<close>, the host manifest and
  \<^verbatim>\<open>inquirer\<close>: none of these is defined in the sources at hand, so they are parameters.
  \<^verbatim>\<open>prompt n\<close> is the answer map of the \<open>n\<close>-th call of \<^verbatim>\<open>inquirer.prompt\<close>. A prompt and
  \<^verbatim>\<open>isOfficial()\<close> are taken to answer, and the helpers of \<^verbatim>\<open>utils/misc\<close> to be total on
  strings; what can fail is reading and rendering a template and the filesystem calls
  (below), and \<^verbatim>\<open>events.get(...).join\<close>.\<close>

record base_env =
  cwd :: string
  dirname :: string
  path_join :: "string list \<Rightarrow> string"
  path_dirname :: "string \<Rightarrow> string"
  normalizeStringByDelimiter :: "string \<Rightarrow> string \<Rightarrow> string"
  toPascalCase :: "string \<Rightarrow> string"
  sonarwhalPackage_version :: string
  isOfficial :: bool
  prompt :: "nat \<Rightarrow> answers"

section \<open>Pure helpers\<close>

text \<open>\<^verbatim>\<open>str.replace(/(`)/g, '\\$1')\<close>: every backtick (0x60) is replaced by a backslash
  (0x5C) followed by the backtick. The \<^verbatim>\<open>SafeString\<close> wrapper only tells Handlebars not to
  HTML-escape the text.\<close>

definition escapeSafeString :: "string \<Rightarrow> string" where
  "escapeSafeString str = concat (map (\<lambda>c. if c = CHR 0x60 then [CHR 0x5C, c] else [c]) str)"

definition events :: "(string \<times> string list) list" where
  "events =
    [(''dom'', [''ElementFound'']),
     (''request'', [''FetchStart'', ''FetchEnd'', ''FetchError'']),
     (''thirdPartyService'', [''FetchStart'', ''FetchEnd'']),
     (''jsInjection'', [''ScanEnd''])]"

text \<open>The keys of \<^const>\<open>events\<close>, which are the four fields of \<^verbatim>\<open>UseCase\<close>.\<close>

definition usage_tags :: "string list" where
  "usage_tags = [''dom'', ''request'', ''thirdPartyService'', ''jsInjection'']"

text \<open>\<^verbatim>\<open>Array.prototype.join\<close>.\<close>

fun join_sep :: "string \<Rightarrow> string list \<Rightarrow> string" where
  "join_sep sep [] = []"
| "join_sep sep [x] = x"
| "join_sep sep (x # y # ys) = x @ sep @ join_sep sep (y # ys)"

text \<open>\<^verbatim>\<open>events.get(useCase).join(', ')\<close>: a key that is not in the map gives \<^verbatim>\<open>undefined\<close>,
  and the call of \<^verbatim>\<open>join\<close> on it throws a TypeError.\<close>

definition getEventsByUseCase :: "string option \<Rightarrow> error + string" where
  "getEventsByUseCase uc =
     (case uc of
        None \<Rightarrow> Inl TypeError
      | Some u \<Rightarrow>
          (case map_of events u of
             None \<Rightarrow> Inl TypeError
           | Some es \<Rightarrow> Inr (join_sep '', '' es)))"

text \<open>Truthiness of an optional boolean.\<close>

definition truthy :: "bool option \<Rightarrow> bool" where
  "truthy b = (b = Some True)"

text \<open>A property key: \<^verbatim>\<open>obj[undefined]\<close> addresses the key \<^verbatim>\<open>"undefined"\<close>.\<close>

definition prop_key :: "string option \<Rightarrow> string" where
  "prop_key k = (case k of None \<Rightarrow> ''undefined'' | Some s \<Rightarrow> s)"

section \<open>The entities\<close>

definition NewRule_constructor ::
  "'e base_env_scheme \<Rightarrow> 'a answers_scheme \<Rightarrow> string option \<Rightarrow> error + NewRule" where
  "NewRule_constructor env ruleData parent =
     (let nname = normalizeStringByDelimiter env (ans_name ruleData) ''-'';
          cname = (case parent of
                     None \<Rightarrow> []
                   | Some p \<Rightarrow> if p \<noteq> [] then toPascalCase env p else [])
                  @ toPascalCase env nname @ ''Rule'';
          cat = (case ans_category ruleData of
                   None \<Rightarrow> ''other''
                 | Some c \<Rightarrow> if c \<noteq> [] then c else ''other'');
          descr = escapeSafeString (ans_description ruleData)
      in case getEventsByUseCase (ans_useCase ruleData) of
           Inl e \<Rightarrow> Inl e
         | Inr evs \<Rightarrow>
             Inr \<lparr> rule_name = ans_name ruleData,
                   rule_normalizedName = nname,
                   className = cname,
                   category = cat,
                   rule_description = descr,
                   elementType = ans_elementType ruleData,
                   rule_events = evs,
                   useCase = AList.update (prop_key (ans_useCase ruleData)) True
                     [(''dom'', False), (''jsInjection'', False),
                      (''request'', False), (''thirdPartyService'', False)],
                   scope = ans_scope ruleData,
                   rule_isRule = True,
                   parentName = parent \<rparr>)"

text \<open>\<^verbatim>\<open>data.rules.forEach((rule) => this.rules.push(new NewRule(rule, this.normalizedName)))\<close>:
  the first constructor that throws ends the loop.\<close>

fun push_rules ::
  "'e base_env_scheme \<Rightarrow> string \<Rightarrow> NewRule list \<Rightarrow> answers list \<Rightarrow> error + NewRule list" where
  "push_rules env nname acc [] = Inr acc"
| "push_rules env nname acc (rule # rest) =
     (case NewRule_constructor env rule (Some nname) of
        Inl e \<Rightarrow> Inl e
      | Inr r \<Rightarrow> push_rules env nname (acc @ [r]) rest)"

definition RulePackage_constructor ::
  "'e base_env_scheme \<Rightarrow> package_data \<Rightarrow> error + RulePackage" where
  "RulePackage_constructor env data =
     (let nname = normalizeStringByDelimiter env (ans_name data) ''-'';
          prefix = (if ans_official data then ''@sonarwhal/'' else ''sonarwhal-'');
          built = (if truthy (ans_multi data)
                   then push_rules env nname [] (ans_rules data)
                   else (case NewRule_constructor env data None of
                           Inl e \<Rightarrow> Inl e
                         | Inr r \<Rightarrow> Inr [r]))
      in case built of
           Inl e \<Rightarrow> Inl e
         | Inr rs \<Rightarrow>
             Inr \<lparr> pkg_name = ans_name data,
                   pkg_description = escapeSafeString (ans_description data),
                   isMulti = ans_multi data,
                   normalizedName = nname,
                   official = ans_official data,
                   packageMain = ''dist/src/index.js'',
                   packageName = prefix @ ''rule-'' @ nname,
                   rules = rs,
                   version = sonarwhalPackage_version env,
                   destination = path_join env [cwd env, ''rule-'' @ nname],
                   pkg_isRule = True \<rparr>)"

section \<open>Effects: prompts, templates, the filesystem, the log\<close>

text \<open>The calls that leave the wizard. \<^verbatim>\<open>CompileTemplate p\<close> is a call of
  \<^verbatim>\<open>compileTemplate\<close> on the template file \<open>p\<close>; the others are \<^verbatim>\<open>fs.copy\<close>,
  \<^verbatim>\<open>mkdirp\<close>, \<^verbatim>\<open>writeFileAsync\<close> (or \<^verbatim>\<open>fs.writeFile\<close>) and \<^verbatim>\<open>installPackages\<close>.\<close>

datatype call =
    Copy string string
  | Mkdirp string
  | WriteFile string string
  | CompileTemplate string
  | InstallPackages "string list"

datatype ResourceType = Configuration | Connector | Formatter | Parser | Rule

datatype log_msg =
    LogCreatingNewRule string
  | LogExternalFilesCopied
  | LogCreated bool string string
  | LogHowToOfficial string
  | LogHowToCommunity string
  | ErrorCreatingRule
  | ErrorValue error
  | DebugErrorReadingFile string
  | DebugStartingInit
  | LogWelcome
  | ErrorNoResources ResourceType

text \<open>The state threaded through a run: the number of prompts answered so far, every
  call issued with its outcome (\<open>True\<close> when it succeeded), and the log.\<close>

record world =
  asked :: nat
  trace :: "(call \<times> bool) list"
  logs :: "log_msg list"

datatype template_data = PackageData RulePackage | RuleData NewRule

text \<open>\<^verbatim>\<open>readFileAsync\<close> and the Handlebars engine may throw; whether a filesystem call
  fails is decided by \<open>io_fail\<close> from the calls made so far and the call itself.\<close>

record env = base_env +
  readFileAsync :: "string \<Rightarrow> error + string"
  hbs_compile :: "string \<Rightarrow> template_data \<Rightarrow> error + string"
  io_fail :: "(call \<times> bool) list \<Rightarrow> call \<Rightarrow> error option"

type_synonym 'a io = "world \<Rightarrow> (error + 'a) \<times> world"

text \<open>\<^verbatim>\<open>await m; f\<close>: a rejected promise skips the rest.\<close>

definition bind_io :: "'a io \<Rightarrow> ('a \<Rightarrow> 'b io) \<Rightarrow> 'b io" where
  "bind_io m f w = (case m w of (Inl e, w') \<Rightarrow> (Inl e, w') | (Inr a, w') \<Rightarrow> f a w')"

text \<open>\<^verbatim>\<open>Promise.all([m1, m2])\<close>: both operations are started, whatever the other one
  does; the result is the first rejection. Which of two rejections comes first in time is
  not modelled: the one of the first member of the array is taken.\<close>

definition both_io :: "'a io \<Rightarrow> 'b io \<Rightarrow> ('a \<times> 'b) io" where
  "both_io m1 m2 w =
     (case m1 w of (r1, w1) \<Rightarrow>
        (case m2 w1 of (r2, w2) \<Rightarrow>
           ((case r1 of
               Inl e \<Rightarrow> Inl e
             | Inr a \<Rightarrow> (case r2 of Inl e \<Rightarrow> Inl e | Inr b \<Rightarrow> Inr (a, b))), w2)))"

definition log_io :: "log_msg \<Rightarrow> unit io" where
  "log_io m w = (Inr (), w\<lparr>logs := logs w @ [m]\<rparr>)"

definition fs_io :: "'e env_scheme \<Rightarrow> call \<Rightarrow> unit io" where
  "fs_io env c w =
     (case io_fail env (trace w) c of
        None \<Rightarrow> (Inr (), w\<lparr>trace := trace w @ [(c, True)]\<rparr>)
      | Some e \<Rightarrow> (Inl e, w\<lparr>trace := trace w @ [(c, False)]\<rparr>))"

definition mkdirpAsync :: "'e env_scheme \<Rightarrow> string \<Rightarrow> unit io" where
  "mkdirpAsync env dir = fs_io env (Mkdirp dir)"

definition writeFileAsync :: "'e env_scheme \<Rightarrow> string \<Rightarrow> string \<Rightarrow> unit io" where
  "writeFileAsync env p content = fs_io env (WriteFile p content)"

definition compileTemplate :: "'e env_scheme \<Rightarrow> string \<Rightarrow> template_data \<Rightarrow> string io" where
  "compileTemplate env filePath data w =
     (case readFileAsync env filePath of
        Inl e \<Rightarrow>
          (Inl e, w\<lparr>trace := trace w @ [(CompileTemplate filePath, False)],
                    logs := logs w @ [DebugErrorReadingFile filePath]\<rparr>)
      | Inr templateContent \<Rightarrow>
          (case hbs_compile env templateContent data of
             Inl e \<Rightarrow> (Inl e, w\<lparr>trace := trace w @ [(CompileTemplate filePath, False)]\<rparr>)
           | Inr text \<Rightarrow> (Inr text, w\<lparr>trace := trace w @ [(CompileTemplate filePath, True)]\<rparr>)))"

section \<open>Generating the files\<close>

definition TEMPLATE_PATH :: string where
  "TEMPLATE_PATH = ''./templates/new-rule''"

definition SHARED_TEMPLATE_PATH :: string where
  "SHARED_TEMPLATE_PATH = ''./shared-templates''"

definition copyFiles :: "'e env_scheme \<Rightarrow> string \<Rightarrow> string \<Rightarrow> unit io" where
  "copyFiles env origin dest =
     bind_io (log_io (LogCreatingNewRule dest)) (\<lambda>_.
     bind_io (fs_io env (Copy origin dest)) (\<lambda>_.
     log_io LogExternalFilesCopied))"

text \<open>The entries of \<^verbatim>\<open>commonFiles\<close> are pairs (destination, template path).\<close>

definition commonFiles :: "'e env_scheme \<Rightarrow> string \<Rightarrow> RulePackage \<Rightarrow> (string \<times> string) list" where
  "commonFiles env dest data =
     [(path_join env [dest, ''src'', ''index.ts''],
       path_join env [dirname env, TEMPLATE_PATH, ''index.ts.hbs'']),
      (path_join env [dest, ''README.md''],
       path_join env [dirname env, TEMPLATE_PATH, ''readme.md.hbs'']),
      (path_join env [dest, ''tsconfig.json''],
       path_join env [dirname env, SHARED_TEMPLATE_PATH, ''tsconfig.json.hbs'']),
      (path_join env [dest, ''package.json''],
       path_join env [dirname env, SHARED_TEMPLATE_PATH, ''package.hbs''])]
     @ (if \<not> official data
        then [(path_join env [dest, ''.sonarwhalrc''],
               path_join env [dirname env, SHARED_TEMPLATE_PATH, ''config.hbs''])]
        else [])"

text \<open>\<^verbatim>\<open>for (const file of commonFiles)\<close>.\<close>

fun write_common :: "'e env_scheme \<Rightarrow> RulePackage \<Rightarrow> (string \<times> string) list \<Rightarrow> unit io" where
  "write_common env data [] = (\<lambda>w. (Inr (), w))"
| "write_common env data ((dest, p) # files) =
     bind_io (compileTemplate env p (PackageData data)) (\<lambda>fileContent.
     bind_io (mkdirpAsync env (path_dirname env dest)) (\<lambda>_.
     bind_io (writeFileAsync env dest fileContent) (\<lambda>_.
     write_common env data files)))"

text \<open>One round of \<^verbatim>\<open>for (const rule of data.rules)\<close>.\<close>

definition write_rule :: "'e env_scheme \<Rightarrow> string \<Rightarrow> RulePackage \<Rightarrow> NewRule \<Rightarrow> unit io" where
  "write_rule env dest data r =
     (let ruleFile = (path_join env [dest, ''src''],
                      path_join env [dirname env, TEMPLATE_PATH, ''rule.ts.hbs'']);
          testFile = (path_join env [dest, ''tests''],
                      path_join env [dirname env, TEMPLATE_PATH, ''tests.ts.hbs'']);
          docFile = (path_join env [dest, ''docs''],
                     path_join env [dirname env, TEMPLATE_PATH, ''rule-doc.hbs'']);
          rulePath = path_join env [fst ruleFile, rule_normalizedName r @ ''.ts''];
          testPath = path_join env [fst testFile, rule_normalizedName r @ ''.ts''];
          docPath = path_join env [fst docFile, rule_normalizedName r @ ''.md'']
      in
        bind_io (both_io (compileTemplate env (snd ruleFile) (RuleData r))
                         (compileTemplate env (snd testFile) (RuleData r)))
          (\<lambda>(ruleContent, testContent).
        bind_io (both_io (mkdirpAsync env (path_dirname env rulePath))
                         (mkdirpAsync env (path_dirname env testPath))) (\<lambda>_.
        bind_io (both_io (writeFileAsync env rulePath ruleContent)
                         (writeFileAsync env testPath testContent)) (\<lambda>_.
        if truthy (isMulti data)
        then
          bind_io (compileTemplate env (snd docFile) (RuleData r)) (\<lambda>docContent.
          bind_io (mkdirpAsync env (path_dirname env docPath)) (\<lambda>_.
          writeFileAsync env docPath docContent))
        else (\<lambda>w. (Inr (), w))))))"

fun write_rules :: "'e env_scheme \<Rightarrow> string \<Rightarrow> RulePackage \<Rightarrow> NewRule list \<Rightarrow> unit io" where
  "write_rules env dest data [] = (\<lambda>w. (Inr (), w))"
| "write_rules env dest data (r # rs) =
     bind_io (write_rule env dest data r) (\<lambda>_. write_rules env dest data rs)"

definition generateRuleFiles :: "'e env_scheme \<Rightarrow> string \<Rightarrow> RulePackage \<Rightarrow> unit io" where
  "generateRuleFiles env dest data =
     bind_io (write_common env data (commonFiles env dest data)) (\<lambda>_.
     write_rules env dest data (rules data))"

section \<open>The driver of the new-rule wizard\<close>

record CLIOptions =
  opt_newRule :: bool

text \<open>\<^verbatim>\<open>askRules\<close> asks one round, pushes the answers and calls itself while the answer
  to \<^verbatim>\<open>again\<close> is truthy. Nothing bounds the number of rounds, so the function is partial:
  \<^const>\<open>None\<close> is the run that never returns.\<close>

partial_function (option) askRules ::
  "'e env_scheme \<Rightarrow> answers list \<Rightarrow> world \<Rightarrow> (answers list \<times> world) option" where
  "askRules env acc w =
     (let r = prompt env (asked w);
          w' = w\<lparr>asked := asked w + 1\<rparr>;
          acc' = acc @ [r]
      in if truthy (ans_again r) then askRules env acc' w' else Some (acc', w'))"

text \<open>What follows the prompts inside the \<^verbatim>\<open>try\<close> block.\<close>

definition newRule_generate :: "'e env_scheme \<Rightarrow> package_data \<Rightarrow> bool io" where
  "newRule_generate env results =
     (case RulePackage_constructor env results of
        Inl e \<Rightarrow> (\<lambda>w. (Inl e, w))
      | Inr rulePackage \<Rightarrow>
          (let noOfficialOrigin = path_join env [dirname env, ''no-official-files''];
               files = path_join env [dirname env, ''files'']
           in
             bind_io (if \<not> official rulePackage
                      then copyFiles env noOfficialOrigin (destination rulePackage)
                      else (\<lambda>w. (Inr (), w))) (\<lambda>_.
             bind_io (copyFiles env files (destination rulePackage)) (\<lambda>_.
             bind_io (generateRuleFiles env (destination rulePackage) rulePackage) (\<lambda>_.
             bind_io (log_io (LogCreated (truthy (isMulti rulePackage)) (pkg_name rulePackage)
                                (destination rulePackage))) (\<lambda>_.
             bind_io (log_io (if official rulePackage
                              then LogHowToOfficial (normalizedName rulePackage)
                              else LogHowToCommunity (normalizedName rulePackage))) (\<lambda>_.
             (\<lambda>w. (Inr True, w)))))))))"

text \<open>The \<^verbatim>\<open>try\<close> block of \<^verbatim>\<open>newRule\<close>.\<close>

definition newRule_try :: "'e env_scheme \<Rightarrow> world \<Rightarrow> ((error + bool) \<times> world) option" where
  "newRule_try env w =
     (let results = prompt env (asked w);
          w1 = w\<lparr>asked := asked w + 1\<rparr>
      in case (if truthy (ans_multi results) then askRules env [] w1 else Some ([], w1)) of
           None \<Rightarrow> None
         | Some (rs, w2) \<Rightarrow>
             Some (newRule_generate env
                     (answers.extend results
                        \<lparr>ans_official = isOfficial env, ans_rules = rs\<rparr>) w2))"

text \<open>\<^verbatim>\<open>newRule\<close>: the \<^verbatim>\<open>catch\<close> block logs twice and returns \<^verbatim>\<open>false\<close>.\<close>

definition newRule :: "'e env_scheme \<Rightarrow> CLIOptions \<Rightarrow> world \<Rightarrow> ((error + bool) \<times> world) option" where
  "newRule env actions w =
     (if \<not> opt_newRule actions then Some (Inr False, w)
      else
        (case newRule_try env w of
           None \<Rightarrow> None
         | Some (Inl e, w') \<Rightarrow>
             Some (Inr False, w'\<lparr>logs := logs w' @ [ErrorCreatingRule, ErrorValue e]\<rparr>)
         | Some (Inr b, w') \<Rightarrow> Some (Inr b, w')))"

section \<open>The init wizard\<close>

text \<open>The configuration object is built as a JavaScript object literal and written with
  \<^verbatim>\<open>JSON.stringify\<close>; an object is the list of its keys and values, in insertion order.\<close>

datatype json =
    JString string
  | JNumber int
  | JArray "json list"
  | JObject "(string \<times> json) list"

record NpmPackage =
  npm_name :: string

text \<open>The answers of the prompts of the init wizard. \<^verbatim>\<open>parsers\<close> is only asked when a
  parser is installed.\<close>

record init_answers =
  ia_configType :: string
  ia_configuration :: string
  ia_connector :: string
  ia_formatter :: string
  ia_rules :: "string list"
  ia_parsers :: "string list option"

record InitUserConfig =
  config :: json
  packages :: "string list option"

record init_env = env +
  init_prompt :: "nat \<Rightarrow> init_answers"
  getOfficialPackages :: "NpmPackage list"
  getInstalledResources :: "ResourceType \<Rightarrow> string list"
  getCoreResources :: "ResourceType \<Rightarrow> string list"
  generateBrowserslistConfig :: "string list"
  JSON_stringify :: "json \<Rightarrow> string"

definition defaultFormatter :: string where
  "defaultFormatter = ''summary''"

definition anyResources :: "'a list \<Rightarrow> ResourceType \<Rightarrow> world \<Rightarrow> bool \<times> world" where
  "anyResources resources type w =
     (if length resources > 0 then (True, w)
      else (False, w\<lparr>logs := logs w @ [ErrorNoResources type]\<rparr>))"

text \<open>\<^verbatim>\<open>String.prototype.split\<close> on a one-character separator, and
  \<^verbatim>\<open>String.prototype.replace\<close> with a string pattern (the first occurrence only).\<close>

fun split_on :: "char \<Rightarrow> string \<Rightarrow> string list" where
  "split_on d [] = [[]]"
| "split_on d (c # cs) =
     (if c = d then [] # split_on d cs
      else (case split_on d cs of
              [] \<Rightarrow> [[c]]
            | x # xs \<Rightarrow> (c # x) # xs))"

fun replace_first :: "string \<Rightarrow> string \<Rightarrow> string \<Rightarrow> string" where
  "replace_first pat rep [] = (if pat = [] then rep else [])"
| "replace_first pat rep (c # cs) =
     (if take (length pat) (c # cs) = pat then rep @ drop (length pat) (c # cs)
      else c # replace_first pat rep cs)"

text \<open>\<^verbatim>\<open>pkgName.split('/')[1].replace('configuration-', '')\<close>: without a slash in the name,
  element 1 is \<^verbatim>\<open>undefined\<close> and \<^verbatim>\<open>replace\<close> throws.\<close>

definition getConfigurationName :: "string \<Rightarrow> error + string" where
  "getConfigurationName pkgName =
     (case split_on CHR ''/'' pkgName of
        _ # second # _ \<Rightarrow> Inr (replace_first ''configuration-'' [] second)
      | _ \<Rightarrow> Inl TypeError)"

text \<open>\<^verbatim>\<open>configPackages.map(...)\<close> building the choices (name, value).\<close>

fun config_choices :: "NpmPackage list \<Rightarrow> error + (string \<times> string) list" where
  "config_choices [] = Inr []"
| "config_choices (pkg # pkgs) =
     (case getConfigurationName (npm_name pkg) of
        Inl e \<Rightarrow> Inl e
      | Inr n \<Rightarrow>
          (case config_choices pkgs of
             Inl e \<Rightarrow> Inl e
           | Inr cs \<Rightarrow> Inr ((n, npm_name pkg) # cs)))"

definition extendConfig :: "'e init_env_scheme \<Rightarrow> InitUserConfig option io" where
  "extendConfig env w =
     (let configPackages = getOfficialPackages env
      in case anyResources configPackages Configuration w of
           (False, w1) \<Rightarrow> (Inr None, w1)
         | (True, w1) \<Rightarrow>
             (case config_choices configPackages of
                Inl e \<Rightarrow> (Inl e, w1)
              | Inr choices \<Rightarrow>
                  (let answers = init_prompt env (asked w1);
                       w2 = w1\<lparr>asked := asked w1 + 1\<rparr>
                   in case getConfigurationName (ia_configuration answers) of
                        Inl e \<Rightarrow> (Inl e, w2)
                      | Inr n \<Rightarrow>
                          (Inr (Some \<lparr> config = JObject [(''extends'', JArray [JString n])],
                                       packages = Some [ia_configuration answers] \<rparr>), w2))))"

text \<open>\<^verbatim>\<open>results.rules.forEach((rule) => { sonarwhalConfig.rules[rule] = 'error'; })\<close>. The
  keys are kept in insertion order; that a JavaScript object lists integer-like keys first
  and takes no own key \<^verbatim>\<open>__proto__\<close> is not modelled (the answers are names of installed
  rules).\<close>

definition rules_object :: "string list \<Rightarrow> (string \<times> json) list" where
  "rules_object rs = fold (\<lambda>r obj. AList.update r (JString ''error'') obj) rs []"

text \<open>The object literal of \<^verbatim>\<open>customConfig\<close> after its assignments: \<^verbatim>\<open>connector.name\<close>,
  \<^verbatim>\<open>formatters\<close>, the keys of \<^verbatim>\<open>rules\<close> and \<^verbatim>\<open>browserslist\<close> are overwritten in place,
  and no other key is added.\<close>

definition sonarwhalConfig :: "init_answers \<Rightarrow> string list \<Rightarrow> (string \<times> json) list" where
  "sonarwhalConfig results browsers =
     AList.update ''browserslist'' (JArray (map JString browsers))
      (AList.update ''rules'' (JObject (rules_object (ia_rules results)))
        (AList.update ''formatters'' (JArray [JString (ia_formatter results)])
          (AList.update ''connector''
             (JObject (AList.update ''name'' (JString (ia_connector results))
                [(''name'', JString []),
                 (''options'', JObject [(''waitFor'', JNumber 1000)])]))
            [(''browserslist'', JArray []),
             (''connector'', JObject [(''name'', JString []),
                                      (''options'', JObject [(''waitFor'', JNumber 1000)])]),
             (''extends'', JArray []),
             (''formatters'', JArray [JString defaultFormatter]),
             (''ignoredUrls'', JArray []),
             (''rules'', JObject []),
             (''rulesTimeout'', JNumber 120000)])))"

definition customConfig :: "'e init_env_scheme \<Rightarrow> InitUserConfig option io" where
  "customConfig env w =
     (let connectorKeys = getInstalledResources env Connector @ getCoreResources env Connector;
          formattersKeys = getInstalledResources env Formatter @ getCoreResources env Formatter;
          parsersKeys = getInstalledResources env Parser @ getCoreResources env Parser;
          rulesKeys = getInstalledResources env Rule @ getCoreResources env Rule
      in case anyResources connectorKeys Connector w of
           (False, w1) \<Rightarrow> (Inr None, w1)
         | (True, w1) \<Rightarrow>
             (case anyResources formattersKeys Formatter w1 of
                (False, w2) \<Rightarrow> (Inr None, w2)
              | (True, w2) \<Rightarrow>
                  (case anyResources rulesKeys Rule w2 of
                     (False, w3) \<Rightarrow> (Inr None, w3)
                   | (True, w3) \<Rightarrow>
                       (let results = init_prompt env (asked w3);
                            w4 = w3\<lparr>asked := asked w3 + 1\<rparr>
                        in (Inr (Some \<lparr> config = JObject (sonarwhalConfig results
                                                   (generateBrowserslistConfig env)),
                                         packages = None \<rparr>), w4)))))"

text \<open>The default export of the init wizard.\<close>

definition init :: "'e init_env_scheme \<Rightarrow> bool io" where
  "init env w =
     (let w0 = w\<lparr>logs := logs w @ [DebugStartingInit, LogWelcome]\<rparr>;
          initialAnswer = init_prompt env (asked w0);
          w1 = w0\<lparr>asked := asked w0 + 1\<rparr>
      in
        bind_io (if ia_configType initialAnswer = ''predefined''
                 then extendConfig env else customConfig env)
          (\<lambda>result.
             case result of
               None \<Rightarrow> (\<lambda>w. (Inr False, w))
             | Some res \<Rightarrow>
                 bind_io (fs_io env (WriteFile (path_join env [cwd env, ''.sonarwhalrc''])
                                       (JSON_stringify env (config res)))) (\<lambda>_.
                 (case packages res of
                    None \<Rightarrow> (\<lambda>w. (Inr True, w))
                  | Some [] \<Rightarrow> (\<lambda>w. (Inr True, w))
                  | Some (p # ps) \<Rightarrow>
                      (case getConfigurationName p of
                         Inl e \<Rightarrow> (\<lambda>w. (Inl e, w))
                       | Inr n \<Rightarrow>
                           if n \<in> set (getInstalledResources env Configuration)
                           then (\<lambda>w. (Inr True, w))
                           else bind_io (fs_io env (InstallPackages (p # ps))) (\<lambda>_.
                                (\<lambda>w. (Inr True, w))))))) w1)"

section \<open>Template literals\<close>

text \<open>The templates put the description between backticks: the comment of
  \<^verbatim>\<open>escapeSafeString\<close> shows \<^verbatim>\<open>description: `...`\<close>. Inside such a JavaScript template
  literal a backslash takes the next character with it, and a backtick that is not taken
  this way ends the literal. \<open>closes_template_literal s\<close> tells whether the text \<open>s\<close>,
  put between the backticks, ends the literal before its end. Substitutions \<^verbatim>\<open>${...}\<close> are
  not modelled.\<close>

fun closes_template_literal :: "string \<Rightarrow> bool" where
  "closes_template_literal [] = False"
| "closes_template_literal [c] = (c = CHR 0x60)"
| "closes_template_literal (c # d # cs) =
     (if c = CHR 0x5C then closes_template_literal cs
      else if c = CHR 0x60 then True
      else closes_template_literal (d # cs))"

section \<open>Reading a trace\<close>

text \<open>The files written and the templates compiled, in the order of the calls that
  succeeded.\<close>

fun written_paths :: "(call \<times> bool) list \<Rightarrow> string list" where
  "written_paths [] = []"
| "written_paths ((WriteFile p c, True) # ts) = p # written_paths ts"
| "written_paths (_ # ts) = written_paths ts"

fun compiled_templates :: "(call \<times> bool) list \<Rightarrow> string list" where
  "compiled_templates [] = []"
| "compiled_templates ((CompileTemplate p, True) # ts) = p # compiled_templates ts"
| "compiled_templates (_ # ts) = compiled_templates ts"

text \<open>A run stops at its first failed call: only the last two calls of a trace may have
  failed (the second one is the other member of a \<^verbatim>\<open>Promise.all\<close> pair, which was already
  started). An operation keeps this, and when it returns normally all its calls succeeded.\<close>

definition stops_at_failure :: "(call \<times> bool) list \<Rightarrow> bool" where
  "stops_at_failure ts = list_all snd (take (length ts - 2) ts)"

definition io_ok :: "'a io \<Rightarrow> bool" where
  "io_ok m =
     (\<forall>w. \<exists>ts. trace (snd (m w)) = trace w @ ts \<and> stops_at_failure ts \<and>
                (\<not> isl (fst (m w)) \<longrightarrow> list_all snd ts))"

definition one_call :: "'a io \<Rightarrow> bool" where
  "one_call m =
     (\<forall>w. \<exists>c b. trace (snd (m w)) = trace w @ [(c, b)] \<and> (\<not> isl (fst (m w)) \<longrightarrow> b))"

section \<open>Sample inputs\<close>

text \<open>Concrete environments, answers and worlds on which the theorems below are
  instantiated. \<open>sample_join\<close> stands for \<^verbatim>\<open>path.join\<close> on segments that need no
  normalisation, \<open>keys_stringify\<close> for \<^verbatim>\<open>JSON.stringify\<close> (it prints the top-level keys
  only); the sample name deriver leaves an already normalised name as it is.\<close>

definition sample_join :: "string list \<Rightarrow> string" where
  "sample_join segs = join_sep ''/'' segs"

definition scenario_answers :: package_data where
  "scenario_answers =
     \<lparr> ans_multi = Some False, ans_name = ''no-https'', ans_description = ''desc'',
       ans_category = Some ''security'', ans_useCase = Some ''request'',
       ans_elementType = None, ans_scope = Some ''any'', ans_again = None,
       ans_official = True, ans_rules = [] \<rparr>"

definition sample_env :: env where
  "sample_env =
     \<lparr> cwd = ''/work'', dirname = ''/app/dist/src/lib/cli/wizards'',
       path_join = sample_join, path_dirname = (\<lambda>p. p @ ''/..''),
       normalizeStringByDelimiter = (\<lambda>s d. s),
       toPascalCase = filter (\<lambda>c. c \<noteq> CHR ''-''),
       sonarwhalPackage_version = ''1.0.0'',
       isOfficial = True,
       prompt = (\<lambda>n. answers.truncate scenario_answers),
       readFileAsync = (\<lambda>p. Inr p),
       hbs_compile = (\<lambda>t d. Inr t),
       io_fail = (\<lambda>h c. None) \<rparr>"

definition round_answers :: "string \<Rightarrow> bool \<Rightarrow> answers" where
  "round_answers n again =
     \<lparr> ans_multi = None, ans_name = n, ans_description = ''Description for '' @ n,
       ans_category = Some ''security'', ans_useCase = Some ''request'',
       ans_elementType = None, ans_scope = Some ''any'', ans_again = Some again \<rparr>"

fun rounds_prompt :: "nat \<Rightarrow> answers" where
  "rounds_prompt 0 = round_answers ''A'' True"
| "rounds_prompt (Suc 0) = round_answers ''B'' True"
| "rounds_prompt (Suc (Suc n)) = round_answers ''A'' False"

definition rounds_env :: env where
  "rounds_env = sample_env\<lparr> prompt := rounds_prompt \<rparr>"

definition world0 :: world where
  "world0 = \<lparr> asked = 0, trace = [], logs = [] \<rparr>"

definition sample_rule :: NewRule where
  "sample_rule =
     \<lparr> rule_name = ''no-https'', rule_normalizedName = ''no-https'',
       className = ''nohttpsRule'', category = ''security'',
       rule_description = ''desc'', elementType = None,
       rule_events = ''FetchStart, FetchEnd, FetchError'',
       useCase = [(''dom'', False), (''jsInjection'', False),
                  (''request'', True), (''thirdPartyService'', False)],
       scope = Some ''any'', rule_isRule = True, parentName = None \<rparr>"

definition sample_package :: RulePackage where
  "sample_package =
     \<lparr> pkg_name = ''no-https'', pkg_description = ''desc'',
       isMulti = Some False, normalizedName = ''no-https'',
       official = True, packageMain = ''dist/src/index.js'',
       packageName = ''@sonarwhal/rule-no-https'',
       rules = [sample_rule],
       version = ''1.0.0'', destination = ''/work/rule-no-https'',
       pkg_isRule = True \<rparr>"

definition multi_answers :: package_data where
  "multi_answers =
     \<lparr> ans_multi = Some True, ans_name = ''typescript-config'', ans_description = ''desc'',
       ans_category = None, ans_useCase = None,
       ans_elementType = None, ans_scope = None, ans_again = None,
       ans_official = False,
       ans_rules = [round_answers ''is-valid'' True, round_answers ''target'' False] \<rparr>"

definition keys_stringify :: "json \<Rightarrow> string" where
  "keys_stringify j = (case j of JObject kvs \<Rightarrow> join_sep '','' (map fst kvs) | _ \<Rightarrow> [])"

definition sample_resources :: "ResourceType \<Rightarrow> string list" where
  "sample_resources t =
     (case t of
        Configuration \<Rightarrow> []
      | Connector \<Rightarrow> [''jsdom'']
      | Formatter \<Rightarrow> [''summary'']
      | Parser \<Rightarrow> [''typescript'']
      | Rule \<Rightarrow> [''no-https''])"

fun custom_prompt :: "nat \<Rightarrow> init_answers" where
  "custom_prompt 0 =
     \<lparr> ia_configType = ''custom'', ia_configuration = [], ia_connector = [],
       ia_formatter = [], ia_rules = [], ia_parsers = None \<rparr>"
| "custom_prompt (Suc n) =
     \<lparr> ia_configType = [], ia_configuration = [], ia_connector = ''jsdom'',
       ia_formatter = ''summary'', ia_rules = [''no-https''],
       ia_parsers = Some [''typescript''] \<rparr>"

definition predefined_prompt :: "nat \<Rightarrow> init_answers" where
  "predefined_prompt n =
     \<lparr> ia_configType = ''predefined'', ia_configuration = ''@sonarwhal/configuration-web-recommended'',
       ia_connector = [], ia_formatter = [], ia_rules = [], ia_parsers = None \<rparr>"

definition custom_env :: init_env where
  "custom_env =
     env.extend sample_env
       \<lparr> init_prompt = custom_prompt, getOfficialPackages = [],
         getInstalledResources = sample_resources, getCoreResources = (\<lambda>t. []),
         generateBrowserslistConfig = [''defaults''], JSON_stringify = keys_stringify \<rparr>"

definition predefined_env :: init_env where
  "predefined_env = custom_env\<lparr> init_prompt := predefined_prompt \<rparr>"

definition failing_env :: env where
  "failing_env =
     sample_env\<lparr> io_fail :=
       (\<lambda>h c. case c of
                 WriteFile p content \<Rightarrow>
                   if p = ''/work/rule-no-https/README.md'' then Some (IOError ''EACCES'') else None
               | _ \<Rightarrow> None) \<rparr>"

definition failed_world :: world where
  "failed_world =
     \<lparr> asked = 1,
       trace =
         [(Copy ''/app/dist/src/lib/cli/wizards/files'' ''/work/rule-no-https'', True),
          (CompileTemplate ''/app/dist/src/lib/cli/wizards/./templates/new-rule/index.ts.hbs'', True),
          (Mkdirp ''/work/rule-no-https/src/index.ts/..'', True),
          (WriteFile ''/work/rule-no-https/src/index.ts''
             ''/app/dist/src/lib/cli/wizards/./templates/new-rule/index.ts.hbs'', True),
          (CompileTemplate ''/app/dist/src/lib/cli/wizards/./templates/new-rule/readme.md.hbs'', True),
          (Mkdirp ''/work/rule-no-https/README.md/..'', True),
          (WriteFile ''/work/rule-no-https/README.md''
             ''/app/dist/src/lib/cli/wizards/./templates/new-rule/readme.md.hbs'', False)],
       logs =
         [LogCreatingNewRule ''/work/rule-no-https'', LogExternalFilesCopied,
          ErrorCreatingRule, ErrorValue (IOError ''EACCES'')] \<rparr>"

section \<open>Facts about the entities\<close>

lemma map_of_events_Some:
  "map_of events u = Some es \<Longrightarrow> u \<in> set usage_tags"
  by (auto simp: events_def usage_tags_def split: if_splits)

lemma getEventsByUseCase_Inr:
  "getEventsByUseCase uc = Inr evs \<Longrightarrow> \<exists>t \<in> set usage_tags. uc = Some t"
  unfolding getEventsByUseCase_def
  by (cases uc) (auto split: option.splits dest: map_of_events_Some)

lemma NewRule_constructor_Inr:
  assumes "NewRule_constructor env ruleData parent = Inr r"
  shows "\<exists>evs. getEventsByUseCase (ans_useCase ruleData) = Inr evs \<and>
           useCase r = AList.update (prop_key (ans_useCase ruleData)) True
             [(''dom'', False), (''jsInjection'', False),
              (''request'', False), (''thirdPartyService'', False)] \<and>
           className r =
             (case parent of None \<Rightarrow> [] | Some p \<Rightarrow> if p \<noteq> [] then toPascalCase env p else [])
             @ toPascalCase env (normalizeStringByDelimiter env (ans_name ruleData) ''-'') @ ''Rule'' \<and>
           rule_normalizedName r = normalizeStringByDelimiter env (ans_name ruleData) ''-'' \<and>
           rule_description r = escapeSafeString (ans_description ruleData) \<and>
           parentName r = parent"
proof (cases "getEventsByUseCase (ans_useCase ruleData)")
  case (Inl e)
  with assms show ?thesis by (simp add: NewRule_constructor_def Let_def)
next
  case (Inr evs)
  with assms have "r = \<lparr> rule_name = ans_name ruleData,
                   rule_normalizedName = normalizeStringByDelimiter env (ans_name ruleData) ''-'',
                   className = (case parent of None \<Rightarrow> [] | Some p \<Rightarrow> if p \<noteq> [] then toPascalCase env p else [])
             @ toPascalCase env (normalizeStringByDelimiter env (ans_name ruleData) ''-'') @ ''Rule'',
                   category = (case ans_category ruleData of
                   None \<Rightarrow> ''other''
                 | Some c \<Rightarrow> if c \<noteq> [] then c else ''other''),
                   rule_description = escapeSafeString (ans_description ruleData),
                   elementType = ans_elementType ruleData,
                   rule_events = evs,
                   useCase = AList.update (prop_key (ans_useCase ruleData)) True
                     [(''dom'', False), (''jsInjection'', False),
                      (''request'', False), (''thirdPartyService'', False)],
                   scope = ans_scope ruleData,
                   rule_isRule = True,
                   parentName = parent \<rparr>"
    by (simp add: NewRule_constructor_def Let_def)
  then show ?thesis using Inr by simp
qed

lemma RulePackage_constructor_Inr:
  assumes "RulePackage_constructor env data = Inr pkg"
  shows "\<exists>rs. (if truthy (ans_multi data)
               then push_rules env (normalizeStringByDelimiter env (ans_name data) ''-'') [] (ans_rules data)
               else (case NewRule_constructor env data None of
                       Inl e \<Rightarrow> Inl e | Inr r \<Rightarrow> Inr [r])) = Inr rs \<and>
          pkg = \<lparr> pkg_name = ans_name data,
                   pkg_description = escapeSafeString (ans_description data),
                   isMulti = ans_multi data,
                   normalizedName = normalizeStringByDelimiter env (ans_name data) ''-'',
                   official = ans_official data,
                   packageMain = ''dist/src/index.js'',
                   packageName = (if ans_official data then ''@sonarwhal/'' else ''sonarwhal-'')
                      @ ''rule-'' @ normalizeStringByDelimiter env (ans_name data) ''-'',
                   rules = rs,
                   version = sonarwhalPackage_version env,
                   destination = path_join env [cwd env,
                      ''rule-'' @ normalizeStringByDelimiter env (ans_name data) ''-''],
                   pkg_isRule = True \<rparr>"
proof (cases "if truthy (ans_multi data)
               then push_rules env (normalizeStringByDelimiter env (ans_name data) ''-'') [] (ans_rules data)
               else (case NewRule_constructor env data None of
                       Inl e \<Rightarrow> Inl e | Inr r \<Rightarrow> Inr [r])")
  case (Inl e)
  with assms show ?thesis by (simp add: RulePackage_constructor_def Let_def)
next
  case (Inr rs)
  with assms show ?thesis by (simp add: RulePackage_constructor_def Let_def)
qed

lemma sample_NewRule:
  "NewRule_constructor sample_env scenario_answers None = Inr sample_rule"
  by (simp add: NewRule_constructor_def getEventsByUseCase_def events_def Let_def
      scenario_answers_def sample_env_def escapeSafeString_def prop_key_def sample_rule_def)

lemma sample_RulePackage:
  "RulePackage_constructor sample_env scenario_answers = Inr sample_package"
  unfolding RulePackage_constructor_def sample_NewRule
  by (simp add: Let_def scenario_answers_def sample_env_def truthy_def escapeSafeString_def
      sample_join_def sample_package_def)

lemma sample_env_fields:
  "normalizeStringByDelimiter sample_env ''no-https'' ''-'' = ''no-https''"
  "readFileAsync sample_env = (\<lambda>p. Inr p)"
  "hbs_compile sample_env = (\<lambda>t d. Inr t)"
  "io_fail sample_env = (\<lambda>h c. None)"
  "path_join sample_env = sample_join"
  "cwd sample_env = ''/work''"
  "dirname sample_env = ''/app/dist/src/lib/cli/wizards''"
  by (simp_all add: sample_env_def)

lemma world0_fields: "asked world0 = 0" "trace world0 = []" "logs world0 = []"
  by (simp_all add: world0_def)

text \<open>Claim C4. Every item that the \<^verbatim>\<open>NewRule\<close> constructor builds has exactly one of
  the four usage flags \<^verbatim>\<open>dom\<close>, \<^verbatim>\<open>request\<close>, \<^verbatim>\<open>thirdPartyService\<close>, \<^verbatim>\<open>jsInjection\<close> set to
  true, the three others being false; the true one is the answered use case. (An answer
  outside the four makes the constructor throw before the flags are set.)\<close>

theorem NewRule_one_usage_flag:
  assumes "NewRule_constructor env ruleData parent = Inr r"
  shows "\<exists>t \<in> set usage_tags. ans_useCase ruleData = Some t \<and>
           map_of (useCase r) t = Some True \<and>
           (\<forall>u \<in> set usage_tags. u \<noteq> t \<longrightarrow> map_of (useCase r) u = Some False)"
proof -
  from NewRule_constructor_Inr[OF assms] obtain evs where
    ev: "getEventsByUseCase (ans_useCase ruleData) = Inr evs" and
    uc: "useCase r = AList.update (prop_key (ans_useCase ruleData)) True
             [(''dom'', False), (''jsInjection'', False),
              (''request'', False), (''thirdPartyService'', False)]"
    by blast
  from getEventsByUseCase_Inr[OF ev] obtain t where
    mem: "t \<in> set usage_tags" and t: "ans_useCase ruleData = Some t" by blast
  have "map_of (useCase r) t = Some True \<and>
       (\<forall>u \<in> set usage_tags. u \<noteq> t \<longrightarrow> map_of (useCase r) u = Some False)"
    using mem unfolding uc t prop_key_def usage_tags_def by auto
  with t mem show ?thesis by blast
qed

text \<open>The scenario answers, whose use case is \<^verbatim>\<open>request\<close>.\<close>

theorem NewRule_one_usage_flag_witness:
  "NewRule_constructor sample_env scenario_answers None = Inr sample_rule \<and>
   map_of (useCase sample_rule) ''request'' = Some True \<and>
   map_of (useCase sample_rule) ''dom'' = Some False \<and>
   map_of (useCase sample_rule) ''thirdPartyService'' = Some False \<and>
   map_of (useCase sample_rule) ''jsInjection'' = Some False"
  using NewRule_one_usage_flag[OF sample_NewRule] sample_NewRule
  by (auto simp: scenario_answers_def usage_tags_def)

text \<open>Claim C7. The package name computed by \<^verbatim>\<open>RulePackage\<close> is the official prefix
  \<^verbatim>\<open>@sonarwhal/\<close> when the official flag is true and the community prefix \<^verbatim>\<open>sonarwhal-\<close>
  otherwise, followed by the kind segment \<^verbatim>\<open>rule-\<close> and the normalized display name. Each
  prefix carries its own separator.\<close>

theorem RulePackage_packageName:
  assumes "RulePackage_constructor env data = Inr pkg"
  shows "packageName pkg =
           (if official pkg then ''@sonarwhal/'' else ''sonarwhal-'') @ ''rule-'' @ normalizedName pkg
         \<and> official pkg = ans_official data
         \<and> normalizedName pkg = normalizeStringByDelimiter env (ans_name data) ''-''"
  using RulePackage_constructor_Inr[OF assms] by auto

theorem RulePackage_packageName_witness:
  "RulePackage_constructor sample_env scenario_answers = Inr sample_package \<and>
   packageName sample_package = ''@sonarwhal/rule-no-https'' \<and>
   official sample_package \<and> normalizedName sample_package = ''no-https''"
  using RulePackage_packageName[OF sample_RulePackage] sample_RulePackage
  by (simp add: scenario_answers_def sample_env_def)

lemma push_rules_className:
  assumes "push_rules env n acc as = Inr rs"
  shows "\<forall>r \<in> set rs. r \<in> set acc \<or>
           (className r = (if n \<noteq> [] then toPascalCase env n else [])
              @ toPascalCase env (rule_normalizedName r) @ ''Rule'' \<and> parentName r = Some n)"
  using assms
proof (induction as arbitrary: acc)
  case Nil
  then show ?case by simp
next
  case (Cons a as)
  show ?case
  proof (cases "NewRule_constructor env a (Some n)")
    case (Inl e)
    with Cons.prems show ?thesis by simp
  next
    case (Inr r0)
    with Cons.prems have "push_rules env n (acc @ [r0]) as = Inr rs" by simp
    from Cons.IH[OF this] have ih: "\<forall>r \<in> set rs. r \<in> set (acc @ [r0]) \<or>
           (className r = (if n \<noteq> [] then toPascalCase env n else [])
              @ toPascalCase env (rule_normalizedName r) @ ''Rule'' \<and> parentName r = Some n)" .
    from NewRule_constructor_Inr[OF Inr]
    have r0: "className r0 = (if n \<noteq> [] then toPascalCase env n else [])
              @ toPascalCase env (rule_normalizedName r0) @ ''Rule'' \<and> parentName r0 = Some n"
      by auto
    show ?thesis
    proof
      fix r assume "r \<in> set rs"
      with ih have "r \<in> set (acc @ [r0]) \<or>
           (className r = (if n \<noteq> [] then toPascalCase env n else [])
              @ toPascalCase env (rule_normalizedName r) @ ''Rule'' \<and> parentName r = Some n)" by blast
      with r0 show "r \<in> set acc \<or>
           (className r = (if n \<noteq> [] then toPascalCase env n else [])
              @ toPascalCase env (rule_normalizedName r) @ ''Rule'' \<and> parentName r = Some n)"
        by auto
    qed
  qed
qed

text \<open>Claim C6. In a package built from answers with \<^verbatim>\<open>multi: true\<close>, the class name of
  every item is the pascal-cased normalized name of the package, followed by the pascal-cased
  normalized name of the item (and the suffix \<^verbatim>\<open>Rule\<close>). \<^verbatim>\<open>toPascalCase\<close> is a parameter; the
  constructor leaves the prefix out when the parent name is the empty string, which is the
  same thing as soon as \<^verbatim>\<open>toPascalCase\<close> maps the empty string to itself.\<close>

theorem multi_package_className_prefix:
  assumes built: "RulePackage_constructor env data = Inr pkg"
      and multi: "truthy (ans_multi data)"
      and empty: "normalizedName pkg \<noteq> [] \<or> toPascalCase env [] = []"
  shows "\<forall>r \<in> set (rules pkg).
           className r = toPascalCase env (normalizedName pkg)
              @ toPascalCase env (rule_normalizedName r) @ ''Rule''"
proof -
  let ?n = "normalizeStringByDelimiter env (ans_name data) ''-''"
  from RulePackage_constructor_Inr[OF built] multi
  have rs: "push_rules env ?n [] (ans_rules data) = Inr (rules pkg)" and n: "normalizedName pkg = ?n"
    by auto
  from push_rules_className[OF rs] empty show ?thesis
    unfolding n by (auto split: if_splits)
qed

lemma multi_rules:
  "push_rules sample_env ''typescript-config'' [] (ans_rules multi_answers) = Inr rs \<Longrightarrow>
   map className rs = [''typescriptconfigisvalidRule'', ''typescriptconfigtargetRule''] \<and>
   map rule_normalizedName rs = [''is-valid'', ''target'']"
  by (auto simp: multi_answers_def NewRule_constructor_def getEventsByUseCase_def events_def
      Let_def round_answers_def sample_env_def)

theorem multi_package_className_prefix_witness:
  "truthy (ans_multi multi_answers) \<and>
   map_sum id (map className \<circ> rules) (RulePackage_constructor sample_env multi_answers)
     = Inr [toPascalCase sample_env ''typescript-config'' @ toPascalCase sample_env ''is-valid'' @ ''Rule'',
            toPascalCase sample_env ''typescript-config'' @ toPascalCase sample_env ''target'' @ ''Rule'']"
proof -
  have m: "truthy (ans_multi multi_answers)" by (simp add: multi_answers_def truthy_def)
  obtain pkg where p: "RulePackage_constructor sample_env multi_answers = Inr pkg"
    by (auto simp: RulePackage_constructor_def multi_answers_def NewRule_constructor_def
        getEventsByUseCase_def events_def Let_def round_answers_def truthy_def)
  from RulePackage_constructor_Inr[OF p] m
  have n: "normalizedName pkg = ''typescript-config''"
    and rs: "push_rules sample_env ''typescript-config'' [] (ans_rules multi_answers) = Inr (rules pkg)"
    by (auto simp: multi_answers_def sample_env_def)
  from multi_rules[OF rs] obtain r1 r2 where
    l: "rules pkg = [r1, r2]" and nn: "rule_normalizedName r1 = ''is-valid''" "rule_normalizedName r2 = ''target''"
    by (auto simp: map_eq_Cons_conv)
  have e: "normalizedName pkg \<noteq> [] \<or> toPascalCase sample_env [] = []" using n by simp
  from multi_package_className_prefix[OF p m e] l nn n
  have "map className (rules pkg) =
     [toPascalCase sample_env ''typescript-config'' @ toPascalCase sample_env ''is-valid'' @ ''Rule'',
      toPascalCase sample_env ''typescript-config'' @ toPascalCase sample_env ''target'' @ ''Rule'']"
    by simp
  with m p show ?thesis by simp
qed

section \<open>Escaping the description\<close>

lemma escapeSafeString_Nil: "escapeSafeString [] = []"
  by (simp add: escapeSafeString_def)

lemma escapeSafeString_Cons:
  "escapeSafeString (c # cs) =
     (if c = CHR 0x60 then CHR 0x5C # CHR 0x60 # escapeSafeString cs else c # escapeSafeString cs)"
  by (simp add: escapeSafeString_def)

lemma closes_plain_char:
  "c \<noteq> CHR 0x5C \<Longrightarrow> c \<noteq> CHR 0x60 \<Longrightarrow> closes_template_literal (c # xs) = closes_template_literal xs"
  by (cases xs) simp_all

lemma closes_escaped_char:
  "closes_template_literal (CHR 0x5C # d # xs) = closes_template_literal xs"
  by simp

text \<open>A description without a backslash is safe: after escaping, none of its backticks
  ends the template literal.\<close>

lemma escapeSafeString_without_backslash:
  "CHR 0x5C \<notin> set s \<Longrightarrow> \<not> closes_template_literal (escapeSafeString s)"
proof (induction s)
  case Nil
  show ?case by (simp add: escapeSafeString_Nil)
next
  case (Cons c cs)
  then have ih: "\<not> closes_template_literal (escapeSafeString cs)" and c: "c \<noteq> CHR 0x5C"
    by auto
  show ?case
  proof (cases "c = CHR 0x60")
    case True
    then show ?thesis using ih by (simp add: escapeSafeString_Cons)
  next
    case False
    then show ?thesis using ih c by (simp add: escapeSafeString_Cons closes_plain_char del: closes_template_literal.simps)
  qed
qed

text \<open>Every backtick of the escaped text stands directly after a backslash.\<close>

lemma escapeSafeString_backtick_preceded:
  "i < length (escapeSafeString s) \<Longrightarrow> escapeSafeString s ! i = CHR 0x60 \<Longrightarrow>
   0 < i \<and> escapeSafeString s ! (i - 1) = CHR 0x5C"
proof (induction s arbitrary: i)
  case Nil
  then show ?case by (simp add: escapeSafeString_Nil)
next
  case (Cons c cs)
  show ?case
  proof (cases "c = CHR 0x60")
    case True
    then have e: "escapeSafeString (c # cs) = CHR 0x5C # CHR 0x60 # escapeSafeString cs"
      by (simp add: escapeSafeString_Cons)
    consider "i = 0" | "i = 1" | j where "i = Suc (Suc j)"
      by (metis One_nat_def not0_implies_Suc)
    then show ?thesis
    proof cases
      case 1
      with Cons.prems e show ?thesis by simp
    next
      case 2
      with e show ?thesis by simp
    next
      case 3
      with Cons.prems e have "j < length (escapeSafeString cs)" "escapeSafeString cs ! j = CHR 0x60"
        by simp_all
      from Cons.IH[OF this] obtain k where "j = Suc k" "escapeSafeString cs ! k = CHR 0x5C"
        by (cases j) auto
      with 3 e show ?thesis by simp
    qed
  next
    case False
    then have e: "escapeSafeString (c # cs) = c # escapeSafeString cs"
      by (simp add: escapeSafeString_Cons)
    show ?thesis
    proof (cases i)
      case 0
      with Cons.prems e False show ?thesis by simp
    next
      case (Suc j)
      with Cons.prems e have "j < length (escapeSafeString cs)" "escapeSafeString cs ! j = CHR 0x60"
        by simp_all
      from Cons.IH[OF this] obtain k where "j = Suc k" "escapeSafeString cs ! k = CHR 0x5C"
        by (cases j) auto
      with Suc e show ?thesis by simp
    qed
  qed
qed

text \<open>Claim C8 says that every backtick of a description is backslash-escaped, so that it
  never breaks the delimiter of the surrounding template. For the description made of a
  backslash and a backtick, \<^verbatim>\<open>escapeSafeString\<close> returns two backslashes and the backtick:
  the backslash of the description takes the inserted one, and the backtick ends the
  template literal. The constructor stores exactly this text as the description handed to
  the templates.\<close>

theorem escapeSafeString_backslash_backtick:
  "escapeSafeString [CHR 0x5C, CHR 0x60] = [CHR 0x5C, CHR 0x5C, CHR 0x60] \<and>
   closes_template_literal (escapeSafeString [CHR 0x5C, CHR 0x60]) \<and>
   map_sum id rule_description
     (NewRule_constructor sample_env (scenario_answers\<lparr>ans_description := [CHR 0x5C, CHR 0x60]\<rparr>) None)
     = Inr [CHR 0x5C, CHR 0x5C, CHR 0x60]"
  by (simp add: escapeSafeString_def NewRule_constructor_def getEventsByUseCase_def events_def
      Let_def scenario_answers_def)

section \<open>The loop of askRules\<close>

lemma askRules_step_again:
  "truthy (ans_again (prompt env (asked w))) \<Longrightarrow>
   askRules env acc w = askRules env (acc @ [prompt env (asked w)]) (w\<lparr>asked := asked w + 1\<rparr>)"
  by (subst askRules.simps) (simp add: Let_def)

lemma askRules_step_stop:
  "\<not> truthy (ans_again (prompt env (asked w))) \<Longrightarrow>
   askRules env acc w = Some (acc @ [prompt env (asked w)], w\<lparr>asked := asked w + 1\<rparr>)"
  by (subst askRules.simps) (simp add: Let_def)

text \<open>Claim C1, as amended. \<^verbatim>\<open>askRules\<close> appends the answers of every round to the
  accumulated list, in the order asked and without comparing them with the entries already
  there, and returns after the first round whose \<^verbatim>\<open>again\<close> is not truthy: \<open>k\<close> continuing
  rounds and the stopping round give exactly these \<open>k + 1\<close> items.\<close>

theorem askRules_collects_every_round:
  "\<not> truthy (ans_again (prompt env (asked w + k))) \<Longrightarrow>
   (\<forall>j<k. truthy (ans_again (prompt env (asked w + j)))) \<Longrightarrow>
   askRules env acc w =
     Some (acc @ map (prompt env) [asked w ..< asked w + k + 1], w\<lparr>asked := asked w + k + 1\<rparr>)"
proof (induction k arbitrary: acc w)
  case 0
  then show ?case by (simp add: askRules_step_stop)
next
  case (Suc k)
  let ?w = "w\<lparr>asked := asked w + 1\<rparr>"
  have a: "truthy (ans_again (prompt env (asked w)))" using Suc.prems(2) by force
  have b: "\<not> truthy (ans_again (prompt env (asked ?w + k)))" using Suc.prems(1) by simp
  have c: "\<forall>j<k. truthy (ans_again (prompt env (asked ?w + j)))"
  proof (intro allI impI)
    fix j assume "j < k"
    then have "Suc j < Suc k" by simp
    then have "truthy (ans_again (prompt env (asked w + Suc j)))" using Suc.prems(2) by blast
    then show "truthy (ans_again (prompt env (asked ?w + j)))" by simp
  qed
  have "askRules env acc w = askRules env (acc @ [prompt env (asked w)]) ?w"
    using a by (rule askRules_step_again)
  also have "\<dots> = Some ((acc @ [prompt env (asked w)]) @ map (prompt env) [asked ?w ..< asked ?w + k + 1],
                 ?w\<lparr>asked := asked ?w + k + 1\<rparr>)"
    using Suc.IH[OF b c] .
  also have "\<dots> = Some (acc @ map (prompt env) [asked w ..< asked w + Suc k + 1], w\<lparr>asked := asked w + Suc k + 1\<rparr>)"
    by (simp add: upt_rec[of "asked w"])
  finally show ?case .
qed

lemma rounds_env_prompt: "prompt rounds_env = rounds_prompt"
  by (simp add: rounds_env_def)

theorem askRules_collects_every_round_witness:
  "truthy (ans_again (prompt rounds_env 0)) \<and> truthy (ans_again (prompt rounds_env 1)) \<and>
   \<not> truthy (ans_again (prompt rounds_env 2)) \<and>
   askRules rounds_env [] world0 =
     Some ([round_answers ''A'' True, round_answers ''B'' True, round_answers ''A'' False],
           world0\<lparr>asked := 3\<rparr>)"
proof -
  have h1: "\<not> truthy (ans_again (prompt rounds_env (asked world0 + 2)))"
    by (simp add: rounds_env_prompt world0_def round_answers_def truthy_def numeral_2_eq_2)
  have h2: "\<forall>j<2. truthy (ans_again (prompt rounds_env (asked world0 + j)))"
    by (simp add: rounds_env_prompt world0_def round_answers_def truthy_def numeral_2_eq_2
        less_Suc_eq)
  have "[0..<3] = [0, Suc 0, Suc (Suc 0)]" by (simp add: upt_rec numeral_3_eq_3)
  with askRules_collects_every_round[OF h1 h2, of "[]"] show ?thesis
    by (simp add: rounds_env_prompt world0_def round_answers_def truthy_def numeral_2_eq_2)
qed

text \<open>Claim C1 as stated fails: rounds named A, B, A are all kept, where the claim
  promises exactly A, B.\<close>

theorem askRules_keeps_duplicates:
  "map_option (map ans_name \<circ> fst) (askRules rounds_env [] world0) = Some [''A'', ''B'', ''A'']"
proof -
  have "askRules rounds_env [] world0 =
     Some ([round_answers ''A'' True, round_answers ''B'' True, round_answers ''A'' False],
           world0\<lparr>asked := Suc (Suc (Suc 0))\<rparr>)"
    by (simp add: askRules_step_again askRules_step_stop rounds_env_prompt world0_def
        round_answers_def truthy_def)
  then show ?thesis by (simp add: round_answers_def)
qed

lemma askRules_trace:
  assumes "askRules env acc w = Some y"
  shows "trace (snd y) = trace w \<and> logs (snd y) = logs w"
proof (rule askRules.raw_induct[where P = "\<lambda>env acc w y. trace (snd y) = trace w \<and> logs (snd y) = logs w",
        OF _ assms])
  fix f :: "'a env_scheme \<Rightarrow> answers list \<Rightarrow> world \<Rightarrow> (answers list \<times> world) option"
  fix env acc w y
  assume ih: "\<And>env acc w y. f env acc w = Some y \<Longrightarrow> trace (snd y) = trace w \<and> logs (snd y) = logs w"
    and eq: "(let r = prompt env (asked w); w' = w\<lparr>asked := asked w + 1\<rparr>; acc' = acc @ [r]
              in if truthy (ans_again r) then f env acc' w' else Some (acc', w')) = Some y"
  show "trace (snd y) = trace w \<and> logs (snd y) = logs w"
  proof (cases "truthy (ans_again (prompt env (asked w)))")
    case True
    with eq have "f env (acc @ [prompt env (asked w)]) (w\<lparr>asked := Suc (asked w)\<rparr>) = Some y"
      by (simp add: Let_def)
    from ih[OF this] show ?thesis by simp
  next
    case False
    with eq show ?thesis by (auto simp: Let_def)
  qed
qed

section \<open>The files of the official single-rule scenario\<close>

lemma scenario_NewRule_builds:
  "\<exists>r. NewRule_constructor env scenario_answers None = Inr r"
  by (simp add: NewRule_constructor_def getEventsByUseCase_def events_def Let_def scenario_answers_def)

lemma scenario_RulePackage_builds:
  "\<exists>pkg. RulePackage_constructor env scenario_answers = Inr pkg"
proof -
  obtain r where "NewRule_constructor env scenario_answers None = Inr r"
    using scenario_NewRule_builds by blast
  then show ?thesis
    by (simp add: RulePackage_constructor_def Let_def truthy_def scenario_answers_def)
qed

lemma scenario_generateRuleFiles:
  assumes norm: "normalizeStringByDelimiter env ''no-https'' ''-'' = ''no-https''"
      and read: "readFileAsync env = (\<lambda>p. Inr (tpl p))"
      and rend: "hbs_compile env = (\<lambda>t d. Inr (out t d))"
      and io: "io_fail env = (\<lambda>h c. None)"
      and pkg: "RulePackage_constructor env scenario_answers = Inr pkg"
  shows "destination pkg = path_join env [cwd env, ''rule-no-https''] \<and>
    fst (generateRuleFiles env (destination pkg) pkg w) = Inr () \<and>
    written_paths (drop (length (trace w))
        (trace (snd (generateRuleFiles env (destination pkg) pkg w)))) =
       [path_join env [destination pkg, ''src'', ''index.ts''],
        path_join env [destination pkg, ''README.md''],
        path_join env [destination pkg, ''tsconfig.json''],
        path_join env [destination pkg, ''package.json''],
        path_join env [path_join env [destination pkg, ''src''], ''no-https.ts''],
        path_join env [path_join env [destination pkg, ''tests''], ''no-https.ts'']] \<and>
    compiled_templates (drop (length (trace w))
        (trace (snd (generateRuleFiles env (destination pkg) pkg w)))) =
       [path_join env [dirname env, TEMPLATE_PATH, ''index.ts.hbs''],
        path_join env [dirname env, TEMPLATE_PATH, ''readme.md.hbs''],
        path_join env [dirname env, SHARED_TEMPLATE_PATH, ''tsconfig.json.hbs''],
        path_join env [dirname env, SHARED_TEMPLATE_PATH, ''package.hbs''],
        path_join env [dirname env, TEMPLATE_PATH, ''rule.ts.hbs''],
        path_join env [dirname env, TEMPLATE_PATH, ''tests.ts.hbs'']]"
proof -
  from RulePackage_constructor_Inr[OF pkg] obtain r where
    r: "NewRule_constructor env scenario_answers None = Inr r" and
    o: "official pkg" and m: "isMulti pkg = Some False" and rs: "rules pkg = [r]" and
    dst: "destination pkg = path_join env [cwd env, ''rule-no-https'']"
    by (auto simp: scenario_answers_def truthy_def norm split: sum.splits)
  from NewRule_constructor_Inr[OF r] have nn: "rule_normalizedName r = ''no-https''"
    by (simp add: scenario_answers_def norm)
  have run: "generateRuleFiles env (destination pkg) pkg w =
     (Inr (), w\<lparr>trace := trace w @
        [(CompileTemplate (path_join env [dirname env, TEMPLATE_PATH, ''index.ts.hbs'']), True),
         (Mkdirp (path_dirname env (path_join env [destination pkg, ''src'', ''index.ts''])), True),
         (WriteFile (path_join env [destination pkg, ''src'', ''index.ts''])
            (out (tpl (path_join env [dirname env, TEMPLATE_PATH, ''index.ts.hbs''])) (PackageData pkg)), True),
         (CompileTemplate (path_join env [dirname env, TEMPLATE_PATH, ''readme.md.hbs'']), True),
         (Mkdirp (path_dirname env (path_join env [destination pkg, ''README.md''])), True),
         (WriteFile (path_join env [destination pkg, ''README.md''])
            (out (tpl (path_join env [dirname env, TEMPLATE_PATH, ''readme.md.hbs''])) (PackageData pkg)), True),
         (CompileTemplate (path_join env [dirname env, SHARED_TEMPLATE_PATH, ''tsconfig.json.hbs'']), True),
         (Mkdirp (path_dirname env (path_join env [destination pkg, ''tsconfig.json''])), True),
         (WriteFile (path_join env [destination pkg, ''tsconfig.json''])
            (out (tpl (path_join env [dirname env, SHARED_TEMPLATE_PATH, ''tsconfig.json.hbs''])) (PackageData pkg)), True),
         (CompileTemplate (path_join env [dirname env, SHARED_TEMPLATE_PATH, ''package.hbs'']), True),
         (Mkdirp (path_dirname env (path_join env [destination pkg, ''package.json''])), True),
         (WriteFile (path_join env [destination pkg, ''package.json''])
            (out (tpl (path_join env [dirname env, SHARED_TEMPLATE_PATH, ''package.hbs''])) (PackageData pkg)), True),
         (CompileTemplate (path_join env [dirname env, TEMPLATE_PATH, ''rule.ts.hbs'']), True),
         (CompileTemplate (path_join env [dirname env, TEMPLATE_PATH, ''tests.ts.hbs'']), True),
         (Mkdirp (path_dirname env (path_join env [path_join env [destination pkg, ''src''], ''no-https.ts''])), True),
         (Mkdirp (path_dirname env (path_join env [path_join env [destination pkg, ''tests''], ''no-https.ts''])), True),
         (WriteFile (path_join env [path_join env [destination pkg, ''src''], ''no-https.ts''])
            (out (tpl (path_join env [dirname env, TEMPLATE_PATH, ''rule.ts.hbs''])) (RuleData r)), True),
         (WriteFile (path_join env [path_join env [destination pkg, ''tests''], ''no-https.ts''])
            (out (tpl (path_join env [dirname env, TEMPLATE_PATH, ''tests.ts.hbs''])) (RuleData r)), True)]\<rparr>)"
    by (simp add: generateRuleFiles_def commonFiles_def o m rs nn write_rule_def Let_def
        bind_io_def both_io_def compileTemplate_def mkdirpAsync_def writeFileAsync_def fs_io_def
        read rend io truthy_def)
  show ?thesis unfolding run by (simp add: dst)
qed

text \<open>Claim C3. For the answers \<^verbatim>\<open>{multi: false, name: "no-https", description: "desc",
  category: "security", useCase: "request", scope: "any", official: true}\<close>, in an
  environment where no template, rendering or filesystem call fails and where \<^verbatim>\<open>no-https\<close> is
  its own normalized name, the package is built with the destination
  \<^verbatim>\<open>path.join(cwd, 'rule-no-https')\<close>, and \<^verbatim>\<open>generateRuleFiles\<close> writes exactly six files under
  it: the four common ones (\<^verbatim>\<open>src/index.ts\<close>, \<^verbatim>\<open>README.md\<close>, \<^verbatim>\<open>tsconfig.json\<close>,
  \<^verbatim>\<open>package.json\<close>) and the source and the test of the rule. No documentation file and no
  \<^verbatim>\<open>.sonarwhalrc\<close> is written; the six templates compiled are the matching ones.\<close>

theorem official_single_rule_manifest:
  assumes norm: "normalizeStringByDelimiter env ''no-https'' ''-'' = ''no-https''"
      and read: "readFileAsync env = (\<lambda>p. Inr (tpl p))"
      and rend: "hbs_compile env = (\<lambda>t d. Inr (out t d))"
      and io: "io_fail env = (\<lambda>h c. None)"
  shows "case RulePackage_constructor env scenario_answers of
           Inl e \<Rightarrow> False
         | Inr pkg \<Rightarrow>
             destination pkg = path_join env [cwd env, ''rule-no-https''] \<and>
             fst (generateRuleFiles env (destination pkg) pkg w) = Inr () \<and>
             written_paths (drop (length (trace w))
                 (trace (snd (generateRuleFiles env (destination pkg) pkg w)))) =
               [path_join env [destination pkg, ''src'', ''index.ts''],
                path_join env [destination pkg, ''README.md''],
                path_join env [destination pkg, ''tsconfig.json''],
                path_join env [destination pkg, ''package.json''],
                path_join env [path_join env [destination pkg, ''src''], ''no-https.ts''],
                path_join env [path_join env [destination pkg, ''tests''], ''no-https.ts'']] \<and>
             compiled_templates (drop (length (trace w))
                 (trace (snd (generateRuleFiles env (destination pkg) pkg w)))) =
               [path_join env [dirname env, TEMPLATE_PATH, ''index.ts.hbs''],
                path_join env [dirname env, TEMPLATE_PATH, ''readme.md.hbs''],
                path_join env [dirname env, SHARED_TEMPLATE_PATH, ''tsconfig.json.hbs''],
                path_join env [dirname env, SHARED_TEMPLATE_PATH, ''package.hbs''],
                path_join env [dirname env, TEMPLATE_PATH, ''rule.ts.hbs''],
                path_join env [dirname env, TEMPLATE_PATH, ''tests.ts.hbs'']]"
proof -
  obtain pkg where pkg: "RulePackage_constructor env scenario_answers = Inr pkg"
    using scenario_RulePackage_builds by blast
  from scenario_generateRuleFiles[OF norm read rend io pkg] show ?thesis
    unfolding pkg sum.case .
qed

theorem official_single_rule_manifest_witness:
  "RulePackage_constructor sample_env scenario_answers = Inr sample_package \<and>
   destination sample_package = ''/work/rule-no-https'' \<and>
   fst (generateRuleFiles sample_env ''/work/rule-no-https'' sample_package world0) = Inr () \<and>
   written_paths (trace (snd (generateRuleFiles sample_env ''/work/rule-no-https'' sample_package world0))) =
     [''/work/rule-no-https/src/index.ts'',
      ''/work/rule-no-https/README.md'',
      ''/work/rule-no-https/tsconfig.json'',
      ''/work/rule-no-https/package.json'',
      ''/work/rule-no-https/src/no-https.ts'',
      ''/work/rule-no-https/tests/no-https.ts'']"
  using official_single_rule_manifest[of sample_env "\<lambda>p. p" "\<lambda>t d. t" world0,
      OF sample_env_fields(1) sample_env_fields(2) sample_env_fields(3) sample_env_fields(4)]
  by (simp add: sample_RulePackage sample_env_fields(5-7) sample_join_def world0_fields
      sample_package_def)

section \<open>Failures during generation\<close>

lemma stops_at_failure_append:
  assumes "list_all snd xs" and "stops_at_failure ys"
  shows "stops_at_failure (xs @ ys)"
proof -
  have "length xs + length ys - 2 - length xs = length ys - 2" by simp
  then have "take (length (xs @ ys) - 2) (xs @ ys) =
         take (length xs + length ys - 2) xs @ take (length ys - 2) ys"
    by simp
  moreover have "list_all snd (take (length xs + length ys - 2) xs)"
    using assms(1) by (auto simp: list_all_iff dest: in_set_takeD)
  ultimately show ?thesis using assms(2) by (simp add: stops_at_failure_def)
qed

lemma stops_at_failure_all: "list_all snd ts \<Longrightarrow> stops_at_failure ts"
  by (auto simp: stops_at_failure_def list_all_iff dest: in_set_takeD)

lemma io_ok_return: "io_ok (\<lambda>w. (r, w))"
  unfolding io_ok_def
proof
  fix w :: world
  have "trace (snd (r, w)) = trace w @ [] \<and> stops_at_failure [] \<and>
        (\<not> isl (fst (r, w)) \<longrightarrow> list_all snd [])"
    by (simp add: stops_at_failure_def)
  then show "\<exists>ts. trace (snd (r, w)) = trace w @ ts \<and> stops_at_failure ts \<and>
        (\<not> isl (fst (r, w)) \<longrightarrow> list_all snd ts)" by blast
qed

lemma io_ok_log: "io_ok (log_io m)"
  unfolding io_ok_def
proof
  fix w :: world
  have "trace (snd (log_io m w)) = trace w @ [] \<and> stops_at_failure [] \<and>
        (\<not> isl (fst (log_io m w)) \<longrightarrow> list_all snd [])"
    by (simp add: stops_at_failure_def log_io_def)
  then show "\<exists>ts. trace (snd (log_io m w)) = trace w @ ts \<and> stops_at_failure ts \<and>
        (\<not> isl (fst (log_io m w)) \<longrightarrow> list_all snd ts)" by blast
qed

lemma one_call_fs: "one_call (fs_io env c)"
  unfolding one_call_def
proof
  fix w :: world
  show "\<exists>ca b. trace (snd (fs_io env c w)) = trace w @ [(ca, b)] \<and>
         (\<not> isl (fst (fs_io env c w)) \<longrightarrow> b)"
    by (cases "io_fail env (trace w) c") (auto simp: fs_io_def)
qed

lemma one_call_compile: "one_call (compileTemplate env p d)"
  unfolding one_call_def
proof
  fix w :: world
  show "\<exists>c b. trace (snd (compileTemplate env p d w)) = trace w @ [(c, b)] \<and>
         (\<not> isl (fst (compileTemplate env p d w)) \<longrightarrow> b)"
  proof (cases "readFileAsync env p")
    case (Inl e)
    then show ?thesis by (auto simp: compileTemplate_def)
  next
    case (Inr t)
    then show ?thesis by (cases "hbs_compile env t d") (auto simp: compileTemplate_def)
  qed
qed

lemma one_call_io_ok: "one_call m \<Longrightarrow> io_ok m"
  unfolding one_call_def io_ok_def
proof
  fix w :: world
  assume "\<forall>w. \<exists>c b. trace (snd (m w)) = trace w @ [(c, b)] \<and> (\<not> isl (fst (m w)) \<longrightarrow> b)"
  then obtain c b where "trace (snd (m w)) = trace w @ [(c, b)]" "\<not> isl (fst (m w)) \<longrightarrow> b"
    by blast
  then have "trace (snd (m w)) = trace w @ [(c, b)] \<and> stops_at_failure [(c, b)] \<and>
     (\<not> isl (fst (m w)) \<longrightarrow> list_all snd [(c, b)])"
    by (simp add: stops_at_failure_def)
  then show "\<exists>ts. trace (snd (m w)) = trace w @ ts \<and> stops_at_failure ts \<and>
     (\<not> isl (fst (m w)) \<longrightarrow> list_all snd ts)" by blast
qed

lemma io_ok_both:
  assumes "one_call m1" and "one_call m2"
  shows "io_ok (both_io m1 m2)"
  unfolding io_ok_def
proof
  fix w :: world
  obtain r1 w1 where m1: "m1 w = (r1, w1)" by (cases "m1 w")
  obtain r2 w2 where m2: "m2 w1 = (r2, w2)" by (cases "m2 w1")
  from assms(1) m1 obtain c1 b1 where t1: "trace w1 = trace w @ [(c1, b1)]" and s1: "\<not> isl r1 \<longrightarrow> b1"
    unfolding one_call_def by (metis fst_conv snd_conv)
  from assms(2) m2 obtain c2 b2 where t2: "trace w2 = trace w1 @ [(c2, b2)]" and s2: "\<not> isl r2 \<longrightarrow> b2"
    unfolding one_call_def by (metis fst_conv snd_conv)
  have res: "both_io m1 m2 w =
     ((case r1 of Inl e \<Rightarrow> Inl e
        | Inr a \<Rightarrow> (case r2 of Inl e \<Rightarrow> Inl e | Inr b \<Rightarrow> Inr (a, b))), w2)"
    by (simp add: both_io_def m1 m2)
  have "\<not> isl (fst (both_io m1 m2 w)) \<longrightarrow> b1 \<and> b2"
    using s1 s2 unfolding res by (cases r1; cases r2) simp_all
  then have "trace (snd (both_io m1 m2 w)) = trace w @ [(c1, b1), (c2, b2)] \<and>
     stops_at_failure [(c1, b1), (c2, b2)] \<and>
     (\<not> isl (fst (both_io m1 m2 w)) \<longrightarrow> list_all snd [(c1, b1), (c2, b2)])"
    by (simp add: res t1 t2 stops_at_failure_def)
  then show "\<exists>ts. trace (snd (both_io m1 m2 w)) = trace w @ ts \<and> stops_at_failure ts \<and>
     (\<not> isl (fst (both_io m1 m2 w)) \<longrightarrow> list_all snd ts)" by blast
qed

lemma io_ok_bind:
  assumes m: "io_ok m" and f: "\<And>a. io_ok (f a)"
  shows "io_ok (bind_io m f)"
  unfolding io_ok_def
proof
  fix w :: world
  obtain r w1 where mw: "m w = (r, w1)" by (cases "m w")
  from m mw obtain ts1 where t1: "trace w1 = trace w @ ts1" and st1: "stops_at_failure ts1"
    and ok1: "\<not> isl r \<longrightarrow> list_all snd ts1"
    unfolding io_ok_def by (metis fst_conv snd_conv)
  show "\<exists>ts. trace (snd (bind_io m f w)) = trace w @ ts \<and> stops_at_failure ts \<and>
     (\<not> isl (fst (bind_io m f w)) \<longrightarrow> list_all snd ts)"
  proof (cases r)
    case (Inl e)
    then have "bind_io m f w = (Inl e, w1)" by (simp add: bind_io_def mw)
    then have "trace (snd (bind_io m f w)) = trace w @ ts1 \<and> stops_at_failure ts1 \<and>
     (\<not> isl (fst (bind_io m f w)) \<longrightarrow> list_all snd ts1)"
      using t1 st1 by simp
    then show ?thesis by blast
  next
    case (Inr a)
    then have b: "bind_io m f w = f a w1" by (simp add: bind_io_def mw)
    from f[of a] obtain ts2 where t2: "trace (snd (f a w1)) = trace w1 @ ts2"
      and st2: "stops_at_failure ts2" and ok2: "\<not> isl (fst (f a w1)) \<longrightarrow> list_all snd ts2"
      unfolding io_ok_def by blast
    from Inr ok1 have a1: "list_all snd ts1" by simp
    have "trace (snd (bind_io m f w)) = trace w @ (ts1 @ ts2) \<and> stops_at_failure (ts1 @ ts2) \<and>
     (\<not> isl (fst (bind_io m f w)) \<longrightarrow> list_all snd (ts1 @ ts2))"
      using t1 t2 a1 ok2 stops_at_failure_append[OF a1 st2] by (simp add: b)
    then show ?thesis by blast
  qed
qed

lemma io_ok_write_common: "io_ok (write_common env data files)"
proof (induction files)
  case Nil
  show ?case by (simp add: io_ok_return)
next
  case (Cons f files)
  obtain dest p where f: "f = (dest, p)" by (cases f)
  show ?case unfolding f write_common.simps mkdirpAsync_def writeFileAsync_def
    by (intro io_ok_bind one_call_io_ok one_call_compile one_call_fs Cons.IH)
qed

lemma io_ok_write_rule: "io_ok (write_rule env dest data r)"
  unfolding write_rule_def Let_def mkdirpAsync_def writeFileAsync_def
  apply (intro io_ok_bind io_ok_both one_call_compile one_call_fs)
  apply (simp only: split_paired_all case_prod_conv)
  apply (intro io_ok_bind io_ok_both one_call_compile one_call_fs)
  apply (cases "truthy (isMulti data)")
   apply (simp_all only: if_True if_False)
   apply (intro io_ok_bind one_call_io_ok one_call_compile one_call_fs)
  apply (rule io_ok_return)
  done

lemma io_ok_write_rules: "io_ok (write_rules env dest data rs)"
proof (induction rs)
  case Nil
  show ?case by (simp add: io_ok_return)
next
  case (Cons r rs)
  show ?case unfolding write_rules.simps
    by (intro io_ok_bind io_ok_write_rule Cons.IH)
qed

lemma io_ok_generateRuleFiles: "io_ok (generateRuleFiles env dest data)"
  unfolding generateRuleFiles_def
  by (intro io_ok_bind io_ok_write_common io_ok_write_rules)

lemma io_ok_copyFiles: "io_ok (copyFiles env origin dest)"
  unfolding copyFiles_def
  by (intro io_ok_bind io_ok_log one_call_io_ok one_call_fs)

lemma io_ok_newRule_generate: "io_ok (newRule_generate env results)"
proof (cases "RulePackage_constructor env results")
  case (Inl e)
  then show ?thesis by (simp add: newRule_generate_def io_ok_return)
next
  case (Inr pkg)
  have c: "io_ok (if \<not> official pkg
                 then copyFiles env (path_join env [dirname env, ''no-official-files'']) (destination pkg)
                 else (\<lambda>w. (Inr (), w)))"
    by (simp add: io_ok_copyFiles io_ok_return)
  show ?thesis unfolding newRule_generate_def Inr sum.case Let_def
    by (intro io_ok_bind c io_ok_copyFiles io_ok_generateRuleFiles io_ok_log io_ok_return)
qed

lemma newRule_try_trace:
  assumes "newRule_try env w = Some (x, w1)"
  shows "\<exists>ts. trace w1 = trace w @ ts \<and> stops_at_failure ts \<and> (\<not> isl x \<longrightarrow> list_all snd ts)"
proof -
  let ?w1 = "w\<lparr>asked := Suc (asked w)\<rparr>"
  let ?ask = "if truthy (ans_multi (prompt env (asked w))) then askRules env [] ?w1 else Some ([], ?w1)"
  from assms obtain rs w2 where a: "?ask = Some (rs, w2)"
    and g: "newRule_generate env (answers.extend (prompt env (asked w))
              \<lparr>ans_official = isOfficial env, ans_rules = rs\<rparr>) w2 = (x, w1)"
    by (auto simp: newRule_try_def Let_def split: option.splits)
  have t2: "trace w2 = trace w"
  proof (cases "truthy (ans_multi (prompt env (asked w)))")
    case True
    with a have "askRules env [] ?w1 = Some (rs, w2)" by simp
    from askRules_trace[OF this] show ?thesis by simp
  next
    case False
    with a show ?thesis by auto
  qed
  from io_ok_newRule_generate[of env "answers.extend (prompt env (asked w))
              \<lparr>ans_official = isOfficial env, ans_rules = rs\<rparr>"] g
  obtain ts where "trace w1 = trace w2 @ ts" "stops_at_failure ts" "\<not> isl x \<longrightarrow> list_all snd ts"
    unfolding io_ok_def by (metis fst_conv snd_conv)
  with t2 show ?thesis by auto
qed

text \<open>Claim C2, as amended. In a run of \<^verbatim>\<open>newRule\<close> with the flag set whose \<^verbatim>\<open>try\<close> block
  comes to its end with a call that failed (a template that cannot be compiled, a file that
  cannot be written, a directory or a copy that fails), the block ended with an error, and
  \<^verbatim>\<open>newRule\<close> returns: it catches the error, logs \<^verbatim>\<open>Error trying to create new rule\<close> and the
  error value, and returns \<^verbatim>\<open>false\<close>. The catch block issues no call, so nothing written so
  far is removed, and only the last two calls of the run can have failed (a failed call and
  the other member of its \<^verbatim>\<open>Promise.all\<close> pair): the run stopped at the failure.\<close>

theorem newRule_failure_is_caught:
  assumes flag: "opt_newRule actions"
      and body: "newRule_try env w = Some (x, w1)"
      and failed: "\<not> list_all snd (drop (length (trace w)) (trace w1))"
  shows "\<exists>e. x = Inl e \<and>
           newRule env actions w =
             Some (Inr False, w1\<lparr>logs := logs w1 @ [ErrorCreatingRule, ErrorValue e]\<rparr>) \<and>
           stops_at_failure (drop (length (trace w)) (trace w1))"
proof -
  from newRule_try_trace[OF body] obtain ts where
    ts: "trace w1 = trace w @ ts" and st: "stops_at_failure ts"
    and ok: "\<not> isl x \<longrightarrow> list_all snd ts"
    by blast
  from failed ts have bad: "\<not> list_all snd ts" by simp
  with ok have "isl x" by blast
  then obtain e where x: "x = Inl e" by (cases x) simp_all
  have run: "newRule env actions w =
      Some (Inr False, w1\<lparr>logs := logs w1 @ [ErrorCreatingRule, ErrorValue e]\<rparr>)"
    using flag body x by (simp add: newRule_def)
  have "stops_at_failure (drop (length (trace w)) (trace w1))" using ts st by simp
  with x run show ?thesis by blast
qed

lemma failing_run:
  "newRule failing_env \<lparr>opt_newRule = True\<rparr> world0 = Some (Inr False, failed_world)"
  by (simp add: newRule_def newRule_try_def newRule_generate_def failing_env_def sample_env_def
      scenario_answers_def answers.defs package_data.defs truthy_def Let_def world0_def
      RulePackage_constructor_def NewRule_constructor_def getEventsByUseCase_def events_def
      escapeSafeString_def prop_key_def sample_join_def failed_world_def
      generateRuleFiles_def commonFiles_def write_rule_def copyFiles_def log_io_def
      bind_io_def both_io_def compileTemplate_def mkdirpAsync_def writeFileAsync_def fs_io_def
      TEMPLATE_PATH_def SHARED_TEMPLATE_PATH_def)

lemma failing_try:
  "newRule_try failing_env world0 =
     Some (Inl (IOError ''EACCES''),
           failed_world\<lparr>logs := [LogCreatingNewRule ''/work/rule-no-https'', LogExternalFilesCopied]\<rparr>)"
  by (simp add: newRule_try_def newRule_generate_def failing_env_def sample_env_def
      scenario_answers_def answers.defs package_data.defs truthy_def Let_def world0_def
      RulePackage_constructor_def NewRule_constructor_def getEventsByUseCase_def events_def
      escapeSafeString_def prop_key_def sample_join_def failed_world_def
      generateRuleFiles_def commonFiles_def write_rule_def copyFiles_def log_io_def
      bind_io_def both_io_def compileTemplate_def mkdirpAsync_def writeFileAsync_def fs_io_def
      TEMPLATE_PATH_def SHARED_TEMPLATE_PATH_def)

text \<open>Claim C2 as stated fails: when writing \<^verbatim>\<open>README.md\<close> is refused, \<^verbatim>\<open>newRule\<close>
  returns \<^verbatim>\<open>false\<close> to its caller instead of the error, and the log names no file;
  \<^verbatim>\<open>src/index.ts\<close>, written before, stays.\<close>

theorem write_failure_not_propagated:
  "map_option fst (newRule failing_env \<lparr>opt_newRule = True\<rparr> world0) = Some (Inr False) \<and>
   map_option (written_paths \<circ> trace \<circ> snd) (newRule failing_env \<lparr>opt_newRule = True\<rparr> world0)
     = Some [''/work/rule-no-https/src/index.ts''] \<and>
   map_option (logs \<circ> snd) (newRule failing_env \<lparr>opt_newRule = True\<rparr> world0)
     = Some [LogCreatingNewRule ''/work/rule-no-https'', LogExternalFilesCopied,
             ErrorCreatingRule, ErrorValue (IOError ''EACCES'')]"
  by (simp add: failing_run failed_world_def)

theorem newRule_failure_is_caught_witness:
  "opt_newRule \<lparr>opt_newRule = True\<rparr> \<and>
   newRule_try failing_env world0 =
     Some (Inl (IOError ''EACCES''),
           failed_world\<lparr>logs := [LogCreatingNewRule ''/work/rule-no-https'', LogExternalFilesCopied]\<rparr>) \<and>
   \<not> list_all snd (drop (length (trace world0)) (trace failed_world)) \<and>
   newRule failing_env \<lparr>opt_newRule = True\<rparr> world0 = Some (Inr False, failed_world) \<and>
   stops_at_failure (drop (length (trace world0)) (trace failed_world))"
proof -
  have flag: "opt_newRule \<lparr>opt_newRule = True\<rparr>" by simp
  have failed: "\<not> list_all snd (drop (length (trace world0))
      (trace (failed_world\<lparr>logs := [LogCreatingNewRule ''/work/rule-no-https'', LogExternalFilesCopied]\<rparr>)))"
    by (simp add: failed_world_def world0_fields)
  from newRule_failure_is_caught[OF flag failing_try failed] failed failing_try show ?thesis
    by (simp add: failed_world_def)
qed

text \<open>Claim C10. When the \<^verbatim>\<open>newRule\<close> flag of the options is false, \<^verbatim>\<open>newRule\<close> returns
  \<^verbatim>\<open>false\<close> at once: no prompt is asked, no template compiled, no filesystem call issued and
  nothing logged.\<close>

theorem newRule_flag_false:
  "\<not> opt_newRule actions \<Longrightarrow> newRule env actions w = Some (Inr False, w)"
  by (simp add: newRule_def)

theorem newRule_flag_false_witness:
  "\<not> opt_newRule \<lparr>opt_newRule = False\<rparr> \<and>
   newRule sample_env \<lparr>opt_newRule = False\<rparr> world0 = Some (Inr False, world0)"
  using newRule_flag_false[of "\<lparr>opt_newRule = False\<rparr>" sample_env world0] by simp

section \<open>The init wizard: facts\<close>

lemma anyResources_Nil: "anyResources [] t w = (False, w\<lparr>logs := logs w @ [ErrorNoResources t]\<rparr>)"
  by (simp add: anyResources_def)

lemma anyResources_nonempty: "xs \<noteq> [] \<Longrightarrow> anyResources xs t w = (True, w)"
  by (simp add: anyResources_def)

lemma extendConfig_no_packages:
  "getOfficialPackages env = [] \<Longrightarrow>
   extendConfig env w = (Inr None, w\<lparr>logs := logs w @ [ErrorNoResources Configuration]\<rparr>)"
  by (simp add: extendConfig_def anyResources_Nil Let_def)

text \<open>Claim C5. When the init wizard looks up the configuration packages to extend (the
  branch taken for the answer \<^verbatim>\<open>predefined\<close>) and the lookup returns the empty list, the wizard
  returns \<^verbatim>\<open>false\<close> and issues no filesystem call: nothing is written or installed.\<close>

theorem init_no_configuration_packages:
  assumes "ia_configType (init_prompt env (asked w)) = ''predefined''"
      and "getOfficialPackages env = []"
  shows "fst (init env w) = Inr False \<and>
         trace (snd (init env w)) = trace w \<and>
         logs (snd (init env w)) =
           logs w @ [DebugStartingInit, LogWelcome, ErrorNoResources Configuration]"
  using assms
  by (simp add: init_def Let_def bind_io_def extendConfig_no_packages)

theorem init_no_configuration_packages_witness:
  "ia_configType (init_prompt predefined_env (asked world0)) = ''predefined'' \<and>
   getOfficialPackages predefined_env = [] \<and>
   fst (init predefined_env world0) = Inr False \<and>
   trace (snd (init predefined_env world0)) = [] \<and>
   logs (snd (init predefined_env world0)) =
     [DebugStartingInit, LogWelcome, ErrorNoResources Configuration]"
proof -
  have a: "ia_configType (init_prompt predefined_env (asked world0)) = ''predefined''"
    by (simp add: predefined_env_def predefined_prompt_def)
  have b: "getOfficialPackages predefined_env = []"
    by (simp add: predefined_env_def custom_env_def env.defs init_env.defs)
  from init_no_configuration_packages[OF a b] a b show ?thesis
    by (simp add: world0_def)
qed

lemma sonarwhalConfig_keys:
  "map fst (sonarwhalConfig results browsers) =
     [''browserslist'', ''connector'', ''extends'', ''formatters'', ''ignoredUrls'',
      ''rules'', ''rulesTimeout'']"
  by (simp add: sonarwhalConfig_def)

lemma customConfig_resources:
  assumes "getInstalledResources env Connector @ getCoreResources env Connector \<noteq> []"
      and "getInstalledResources env Formatter @ getCoreResources env Formatter \<noteq> []"
      and "getInstalledResources env Rule @ getCoreResources env Rule \<noteq> []"
  shows "customConfig env w =
     (Inr (Some \<lparr> config = JObject (sonarwhalConfig (init_prompt env (asked w))
                                       (generateBrowserslistConfig env)),
                   packages = None \<rparr>), w\<lparr>asked := asked w + 1\<rparr>)"
  using assms
  by (simp add: customConfig_def Let_def anyResources_nonempty)

text \<open>Claim C9. In a custom run in which connectors, formatters, rules and parsers are
  available and the user selects parsers, the only call is the write of \<^verbatim>\<open>.sonarwhalrc\<close>, and
  the object written has no \<^verbatim>\<open>parsers\<close> key: the answer is never read.\<close>

theorem custom_config_has_no_parsers:
  assumes custom: "ia_configType (init_prompt env (asked w)) \<noteq> ''predefined''"
      and conn: "getInstalledResources env Connector @ getCoreResources env Connector \<noteq> []"
      and form: "getInstalledResources env Formatter @ getCoreResources env Formatter \<noteq> []"
      and rule: "getInstalledResources env Rule @ getCoreResources env Rule \<noteq> []"
      and pars: "getInstalledResources env Parser @ getCoreResources env Parser \<noteq> []"
      and sel: "ia_parsers (init_prompt env (asked w + 1)) = Some ps" "ps \<noteq> []"
  shows "map fst (trace (snd (init env w))) =
           map fst (trace w) @
             [WriteFile (path_join env [cwd env, ''.sonarwhalrc''])
                (JSON_stringify env
                   (JObject (sonarwhalConfig (init_prompt env (asked w + 1))
                               (generateBrowserslistConfig env))))] \<and>
         ''parsers'' \<notin> set (map fst (sonarwhalConfig (init_prompt env (asked w + 1))
                                          (generateBrowserslistConfig env)))"
proof -
  let ?cfg = "sonarwhalConfig (init_prompt env (asked w + 1)) (generateBrowserslistConfig env)"
  have k: "''parsers'' \<notin> set (map fst ?cfg)"
    unfolding sonarwhalConfig_keys by simp
  have "map fst (trace (snd (init env w))) =
           map fst (trace w) @
             [WriteFile (path_join env [cwd env, ''.sonarwhalrc''])
                (JSON_stringify env (JObject ?cfg))]"
    using custom
    by (auto simp: init_def Let_def bind_io_def customConfig_resources[OF conn form rule] fs_io_def
        split: option.splits)
  with k show ?thesis by blast
qed

lemma custom_env_fields:
  "init_prompt custom_env = custom_prompt"
  "getInstalledResources custom_env = sample_resources"
  "getCoreResources custom_env = (\<lambda>t. [])"
  "generateBrowserslistConfig custom_env = [''defaults'']"
  "JSON_stringify custom_env = keys_stringify"
  "path_join custom_env = sample_join"
  "cwd custom_env = ''/work''"
  by (simp_all add: custom_env_def env.defs init_env.defs sample_env_def)

theorem custom_config_has_no_parsers_witness:
  "ia_configType (init_prompt custom_env (asked world0)) \<noteq> ''predefined'' \<and>
   getInstalledResources custom_env Parser @ getCoreResources custom_env Parser = [''typescript''] \<and>
   ia_parsers (init_prompt custom_env (asked world0 + 1)) = Some [''typescript''] \<and>
   map fst (trace (snd (init custom_env world0))) =
     [WriteFile ''/work/.sonarwhalrc''
        ''browserslist,connector,extends,formatters,ignoredUrls,rules,rulesTimeout'']"
proof -
  have custom: "ia_configType (init_prompt custom_env (asked world0)) \<noteq> ''predefined''"
    by (simp add: custom_env_fields world0_def)
  have conn: "getInstalledResources custom_env Connector @ getCoreResources custom_env Connector \<noteq> []"
    and form: "getInstalledResources custom_env Formatter @ getCoreResources custom_env Formatter \<noteq> []"
    and rule: "getInstalledResources custom_env Rule @ getCoreResources custom_env Rule \<noteq> []"
    and pars: "getInstalledResources custom_env Parser @ getCoreResources custom_env Parser \<noteq> []"
    by (simp_all add: custom_env_fields sample_resources_def)
  have sel: "ia_parsers (init_prompt custom_env (asked world0 + 1)) = Some [''typescript'']"
    "[''typescript''] \<noteq> []"
    by (simp_all add: custom_env_fields world0_def)
  from custom_config_has_no_parsers[OF custom conn form rule pars sel]
  have "map fst (trace (snd (init custom_env world0))) =
     [WriteFile ''/work/.sonarwhalrc''
        ''browserslist,connector,extends,formatters,ignoredUrls,rules,rulesTimeout'']"
    by (simp add: custom_env_fields world0_def keys_stringify_def sonarwhalConfig_keys sample_join_def)
  with custom sel show ?thesis
    by (simp add: custom_env_fields sample_resources_def)
qed

end
